theory Spec2Isabelle
  imports Complex_Main "HOL-Library.Char_ord" "HOL-Library.List_Lexorder"
begin

text \<open>
  A model of \<open>xo_otm_identify/preproc.py\<close>: the class \<open>PreProcessor\<close>, which compiles the
  point and line frames of two carriers from their L1p files, identifies the crossovers
  (\<open>xo\<close>) or orbit-trajectory matches (\<open>otm\<close>) of their tracks, and exports them. Each
  method is a function of the same name (without the leading underscore). Times and
  coordinates are real numbers; the floating-point operations that compute the time
  difference of a record are functions of the library parameter, not real arithmetic.
\<close>

section \<open>Python values: exceptions, log records, indexing\<close>

text \<open>
  Every raise of the source is a value \<open>Inl e\<close> of the result type \<open>py_error + 'a\<close>.
  \<open>SystemExit\<close> carries the argument of \<open>sys.exit\<close> (\<open>None\<close> when it is called without one).
\<close>

datatype py_error =
    IndexError
  | ValueError
  | AttributeError
  | SystemExit "int option"

definition bindE :: "py_error + 'a \<Rightarrow> ('a \<Rightarrow> py_error + 'b) \<Rightarrow> py_error + 'b" where
  "bindE m f = (case m of Inl e \<Rightarrow> Inl e | Inr x \<Rightarrow> f x)"

text \<open>
  The loguru logger: a log is the list of records written so far, newest last. A record is
  its level and the fixed part of its message (interpolated values are left out).
\<close>

datatype level = INFO | WARNING | CRITICAL

type_synonym log = "(level \<times> string) list"

text \<open>
  \<open>xs.iloc[i]\<close> (and \<open>xs[i]\<close> on a Python list) for a position \<open>i \<ge> 0\<close>,
  \<open>xs.iloc[[i, j, ...]]\<close> (and numpy's \<open>xs[idx]\<close> with an integer array) for a list of
  positions, and \<open>xs.iloc[-1]\<close>. Each raises IndexError out of range.
\<close>

definition iloc :: "'a list \<Rightarrow> nat \<Rightarrow> py_error + 'a" where
  "iloc xs i = (if i < length xs then Inr (xs ! i) else Inl IndexError)"

definition iloc_list :: "'a list \<Rightarrow> nat list \<Rightarrow> py_error + 'a list" where
  "iloc_list xs ps =
     (if list_all (\<lambda>i. i < length xs) ps then Inr (map (\<lambda>i. xs ! i) ps) else Inl IndexError)"

definition iloc_last :: "'a list \<Rightarrow> py_error + 'a" where
  "iloc_last xs = (if xs = [] then Inl IndexError else Inr (last xs))"

text \<open>\<open>np.where(mask)[0]\<close>: the positions at which a boolean array is true, ascending.\<close>

definition np_where :: "bool list \<Rightarrow> nat list" where
  "np_where condition = filter (\<lambda>i. condition ! i) [0..<length condition]"

section \<open>The libraries the code calls\<close>

text \<open>
  The run-time class of a shapely geometry, as \<open>type(MATCH)\<close> tests it.
\<close>

datatype shapely_type =
    Point
  | LineString
  | LinearRing
  | Polygon
  | MultiPoint
  | MultiLineString
  | MultiPolygon
  | GeometryCollection

text \<open>
  shapely, geopandas, numpy and the datetime conversions are libraries, not code of this
  repository: they are parameters of the model. \<open>'g\<close> is the type of geometries.
  A datetime is a point of the time axis, in seconds since the epoch;
  \<open>fromtimestamp\<close> and \<open>to_datetime\<close> round to the resolution of their datetimes and may
  raise (a timestamp out of the calendar's range). The difference of two datetimes is
  exact; \<open>total_seconds\<close> turns it into a float, \<open>fdiv\<close> is the division of two floats and
  \<open>np_round\<close> is \<open>np.round\<close> on a float, each with the rounding of binary floating-point
  arithmetic, which the model does not fix.
\<close>

record 'g lib =
  intersection :: "'g \<Rightarrow> 'g \<Rightarrow> 'g"
  buffer :: "'g \<Rightarrow> real \<Rightarrow> 'g"
  intersects :: "'g \<Rightarrow> 'g \<Rightarrow> bool"
  distance :: "'g \<Rightarrow> 'g \<Rightarrow> real"
  geom_type :: "'g \<Rightarrow> shapely_type"
  is_empty :: "'g \<Rightarrow> bool"
  line_string :: "'g list \<Rightarrow> 'g"
  points_from_xy :: "real \<Rightarrow> real \<Rightarrow> 'g"
  fromtimestamp :: "real \<Rightarrow> py_error + real"
  to_datetime :: "real \<Rightarrow> py_error + real"
  total_seconds :: "real \<Rightarrow> real"
  fdiv :: "real \<Rightarrow> real \<Rightarrow> real"
  np_round :: "real \<Rightarrow> nat \<Rightarrow> real"

text \<open>
  The fields of \<open>Configuration\<close> that the code reads. The class is imported from the
  module \<open>cfg\<close>; the values of its fields are parameters of the model.
\<close>

record configuration =
  aoi :: string
  buffersize :: real
  matchtype :: string
  delta_t :: real

section \<open>The data frames\<close>

text \<open>
  A row of the point frame \<open>gdfdict['pts']\<close>: the columns id, time, lat, lon, fidx and geometry.
\<close>

record 'g point_row =
  id' :: string
  time :: real
  lat :: real
  lon :: real
  fidx :: nat
  geometry :: "'g"

text \<open>
  A row of the line frame \<open>gdfdict['lin']\<close>: the track's id and its polyline, \<open>None\<close> for
  a track with fewer than two points.
\<close>

type_synonym 'g line_row = "string \<times> 'g option"

text \<open>
  The tuple \<open>ATTRS\<close> of a match, one field per column of the result frame.
\<close>

record attrs =
  l1p_c1 :: string
  l1p_c2 :: string
  c1_rng_0 :: nat
  c1_rng_1 :: nat
  c2_rng_0 :: nat
  c2_rng_1 :: nat
  match_dt :: real

section \<open>Point attribution and record synthesis\<close>

definition identify_points_in_match ::
  "'g lib \<Rightarrow> configuration \<Rightarrow> 'g \<Rightarrow> 'g point_row list \<Rightarrow> nat list" where
  "identify_points_in_match L cfg match line_points =
     (let line_point_geometries = map geometry line_points;
          match_buffered = buffer L match (buffersize cfg)
      in filter (\<lambda>pt_idx. intersects L (line_point_geometries ! pt_idx) match_buffered)
           [0..<length line_point_geometries])"

text \<open>
  The part shared by \<open>_identify_XOs\<close> and \<open>_identify_OTMs\<close> (the same lines in both): the
  midpoint times, their difference in hours and the tuple.
\<close>

definition match_attrs ::
  "'g lib \<Rightarrow> 'g point_row list \<Rightarrow> 'g point_row list \<Rightarrow> nat list \<Rightarrow> nat list \<Rightarrow>
   nat list \<Rightarrow> nat list \<Rightarrow> py_error + attrs" where
  "match_attrs L line1_points line2_points line1_points_in_match line2_points_in_match
     fidx1 fidx2 =
     (let dt_idx1 = length line1_points_in_match div 2;
          dt_idx2 = length line2_points_in_match div 2
      in bindE (iloc line1_points_in_match dt_idx1) (\<lambda>p1.
         bindE (iloc (map time line1_points) p1) (\<lambda>t1.
         bindE (iloc line2_points_in_match dt_idx2) (\<lambda>p2.
         bindE (iloc (map time line2_points) p2) (\<lambda>t2.
         bindE (fromtimestamp L t1) (\<lambda>dt_pts1.
         bindE (fromtimestamp L t2) (\<lambda>dt_pts2.
         let delta_dt_match = dt_pts1 - dt_pts2;
             abs_delta_hh = \<bar>fdiv L (total_seconds L delta_dt_match) 3600\<bar>
         in bindE (iloc (map id' line1_points) 0) (\<lambda>a0.
            bindE (iloc (map id' line2_points) 0) (\<lambda>a1.
            bindE (iloc fidx1 0) (\<lambda>a2.
            bindE (iloc_last fidx1) (\<lambda>a3.
            bindE (iloc fidx2 0) (\<lambda>a4.
            bindE (iloc_last fidx2) (\<lambda>a5.
            Inr \<lparr>l1p_c1 = a0, l1p_c2 = a1, c1_rng_0 = a2, c1_rng_1 = a3,
                 c2_rng_0 = a4, c2_rng_1 = a5,
                 match_dt = np_round L abs_delta_hh 3\<rparr>)))))))))))))"

definition identify_XOs ::
  "'g lib \<Rightarrow> configuration \<Rightarrow> 'g \<Rightarrow> 'g point_row list \<Rightarrow> 'g point_row list \<Rightarrow>
   py_error + attrs option" where
  "identify_XOs L cfg match line1_points line2_points =
     (let line1_points_in_match = identify_points_in_match L cfg match line1_points;
          line2_points_in_match = identify_points_in_match L cfg match line2_points
      in if length line1_points_in_match > 0 \<and> length line2_points_in_match > 0 then
           bindE (iloc_list (map fidx line1_points) line1_points_in_match) (\<lambda>fidx1.
           bindE (iloc_list (map fidx line2_points) line2_points_in_match) (\<lambda>fidx2.
           let geometry1 = map geometry line1_points
           in bindE (iloc_list geometry1 line1_points_in_match) (\<lambda>line1_match_geometries.
              let geometry2 = map geometry line1_points
              in bindE (iloc_list geometry2 line2_points_in_match) (\<lambda>line2_match_geometries.
                 let dist2xo1 = map (\<lambda>g. np_round L (distance L g match) 0) line1_match_geometries;
                     dist2xo2 = map (\<lambda>g. np_round L (distance L g match) 0) line2_match_geometries
                 in bindE (match_attrs L line1_points line2_points line1_points_in_match
                             line2_points_in_match fidx1 fidx2)
                      (\<lambda>ATTRS. Inr (Some ATTRS))))))
         else Inr None)"

definition identify_OTMs ::
  "'g lib \<Rightarrow> configuration \<Rightarrow> 'g \<Rightarrow> 'g point_row list \<Rightarrow> 'g point_row list \<Rightarrow>
   py_error + attrs option" where
  "identify_OTMs L cfg match line1_points line2_points =
     (let line1_points_in_match = identify_points_in_match L cfg match line1_points;
          line2_points_in_match = identify_points_in_match L cfg match line2_points
      in if length line1_points_in_match > 50 \<and> length line2_points_in_match > 50 then
           bindE (iloc_list (map fidx line1_points) line1_points_in_match) (\<lambda>fidx1.
           bindE (iloc_list (map fidx line2_points) line2_points_in_match) (\<lambda>fidx2.
           bindE (match_attrs L line1_points line2_points line1_points_in_match
                    line2_points_in_match fidx1 fidx2)
             (\<lambda>ATTRS. Inr (Some ATTRS))))
         else Inr None)"

section \<open>Logging\<close>

text \<open>
  A computation that writes log records and then returns or raises: the records it wrote,
  and its result. The records written before a raise are kept.
\<close>

type_synonym 'a logged = "log \<times> (py_error + 'a)"

definition bindL :: "'a logged \<Rightarrow> ('a \<Rightarrow> 'b logged) \<Rightarrow> 'b logged" where
  "bindL m f =
     (case m of
        (l, Inl e) \<Rightarrow> (l, Inl e)
      | (l, Inr x) \<Rightarrow> (case f x of (l', r) \<Rightarrow> (l @ l', r)))"

definition logger :: "level \<Rightarrow> string \<Rightarrow> unit logged" where
  "logger lv msg = ([(lv, msg)], Inr ())"

definition quiet :: "py_error + 'a \<Rightarrow> 'a logged" where
  "quiet r = ([], r)"

section \<open>The matching driver\<close>

definition identify_intersection :: "'g lib \<Rightarrow> configuration \<Rightarrow> 'g \<Rightarrow> 'g \<Rightarrow> 'g option" where
  "identify_intersection L cfg line1 line2 =
     (if matchtype cfg = ''xo'' then Some (intersection L line1 line2)
      else if matchtype cfg = ''otm'' then
        Some (intersection L line1 (buffer L line2 (buffersize cfg)))
      else None)"

text \<open>
  The body of the inner loop of \<open>_identify\<close> for one pair of line rows: the record and its
  geometry when \<open>ATTRS\<close> is not \<open>None\<close>. \<open>identify_intersection\<close> returns \<open>None\<close> for a
  match type that is neither \<open>xo\<close> nor \<open>otm\<close>, whose type is no geometry class.
\<close>

definition identify_pair ::
  "'g lib \<Rightarrow> configuration \<Rightarrow> 'g point_row list \<Rightarrow> 'g point_row list \<Rightarrow>
   'g line_row \<Rightarrow> 'g line_row \<Rightarrow> (attrs \<times> 'g) option logged" where
  "identify_pair L cfg POINTS1 POINTS2 row1 row2 =
     (case (row1, row2) of
        ((xo_id1, Some lin1), (xo_id2, Some lin2)) \<Rightarrow>
          (let MATCH = identify_intersection L cfg lin1 lin2;
               points_on_line1 = filter (\<lambda>r. id' r = xo_id1) POINTS1;
               points_on_line2 = filter (\<lambda>r. id' r = xo_id2) POINTS2
           in case MATCH of
                Some g \<Rightarrow>
                  if geom_type L g = Point \<and> matchtype cfg = ''xo'' then
                    bindL (quiet (identify_XOs L cfg g points_on_line1 points_on_line2))
                      (\<lambda>ATTRS. quiet (Inr (map_option (\<lambda>a. (a, g)) ATTRS)))
                  else if geom_type L g = LineString \<and> matchtype cfg = ''otm'' then
                    bindL (quiet (identify_OTMs L cfg g points_on_line1 points_on_line2))
                      (\<lambda>ATTRS. quiet (Inr (map_option (\<lambda>a. (a, g)) ATTRS)))
                  else
                    bindL (logger WARNING ''Unsupported intersect type'') (\<lambda>_. quiet (Inr None))
              | None \<Rightarrow>
                  bindL (logger WARNING ''Unsupported intersect type'') (\<lambda>_. quiet (Inr None)))
      | _ \<Rightarrow> quiet (Inr None))"

text \<open>The inner loop: the rows appended to \<open>attributes\<close> and \<open>geometries\<close>, in order.\<close>

fun identify_inner ::
  "'g lib \<Rightarrow> configuration \<Rightarrow> 'g point_row list \<Rightarrow> 'g point_row list \<Rightarrow>
   'g line_row \<Rightarrow> 'g line_row list \<Rightarrow> (attrs \<times> 'g) list logged" where
  "identify_inner L cfg POINTS1 POINTS2 row1 [] = quiet (Inr [])"
| "identify_inner L cfg POINTS1 POINTS2 row1 (row2 # rows2) =
     bindL (identify_pair L cfg POINTS1 POINTS2 row1 row2) (\<lambda>m.
     bindL (identify_inner L cfg POINTS1 POINTS2 row1 rows2) (\<lambda>ms.
     quiet (Inr (case m of None \<Rightarrow> ms | Some x \<Rightarrow> x # ms))))"

text \<open>
  \<open>df[['id','time']].groupby(['id'], as_index=False).mean()\<close>: one row per id, the ids
  ascending, with the mean of the id's times.
\<close>

definition group_ids :: "'g point_row list \<Rightarrow> string list" where
  "group_ids POINTS = sort (remdups (map id' POINTS))"

definition mean_time :: "'g point_row list \<Rightarrow> string \<Rightarrow> real" where
  "mean_time POINTS i =
     (let ts = map time (filter (\<lambda>r. id' r = i) POINTS) in sum_list ts / real (length ts))"

fun mapE :: "('a \<Rightarrow> py_error + 'b) \<Rightarrow> 'a list \<Rightarrow> py_error + 'b list" where
  "mapE f [] = Inr []"
| "mapE f (x # xs) = bindE (f x) (\<lambda>y. bindE (mapE f xs) (\<lambda>ys. Inr (y # ys)))"

text \<open>
  One round of the outer loop, for the line row at index \<open>idx1\<close>: the time-dependent subset
  of the second carrier's lines, then the inner loop over it.
\<close>

definition identify_outer_step ::
  "'g lib \<Rightarrow> configuration \<Rightarrow> 'g point_row list \<Rightarrow> 'g point_row list \<Rightarrow>
   'g line_row list \<Rightarrow> real list \<Rightarrow> real list \<Rightarrow> nat \<times> 'g line_row \<Rightarrow>
   (attrs \<times> 'g) list logged" where
  "identify_outer_step L cfg POINTS1 POINTS2 LINES2 dt1_df dt2_df r =
     (case r of (idx1, row1) \<Rightarrow>
        bindL (logger INFO ''Processing'') (\<lambda>_.
        bindL (logger INFO ''Identifying orbit intersections...'') (\<lambda>_.
        bindL (quiet (iloc dt1_df idx1)) (\<lambda>d1.
        let abs_dtd_hh = map (\<lambda>d2. \<bar>d2 - d1\<bar> / 3600) dt2_df;
            LINES_IDX = filter (\<lambda>j. abs_dtd_hh ! j \<le> delta_t cfg) [0..<length abs_dtd_hh]
        in bindL (quiet (iloc_list LINES2 LINES_IDX)) (\<lambda>rows2.
           identify_inner L cfg POINTS1 POINTS2 row1 rows2)))))"

fun identify_outer ::
  "'g lib \<Rightarrow> configuration \<Rightarrow> 'g point_row list \<Rightarrow> 'g point_row list \<Rightarrow>
   'g line_row list \<Rightarrow> real list \<Rightarrow> real list \<Rightarrow> (nat \<times> 'g line_row) list \<Rightarrow>
   (attrs \<times> 'g) list logged" where
  "identify_outer L cfg POINTS1 POINTS2 LINES2 dt1_df dt2_df [] = quiet (Inr [])"
| "identify_outer L cfg POINTS1 POINTS2 LINES2 dt1_df dt2_df (r # rs) =
     bindL (identify_outer_step L cfg POINTS1 POINTS2 LINES2 dt1_df dt2_df r) (\<lambda>ms.
     bindL (identify_outer L cfg POINTS1 POINTS2 LINES2 dt1_df dt2_df rs) (\<lambda>ms'.
     quiet (Inr (ms @ ms'))))"

record 'g gdfdict =
  pts :: "'g point_row list"
  lin :: "'g line_row list"

definition identify ::
  "'g lib \<Rightarrow> configuration \<Rightarrow> 'g gdfdict \<Rightarrow> 'g gdfdict \<Rightarrow> (attrs \<times> 'g) list logged" where
  "identify L cfg gdfdict_c1 gdfdict_c2 =
     (let POINTS1 = pts gdfdict_c1;
          POINTS2 = pts gdfdict_c2;
          LINES1 = lin gdfdict_c1;
          LINES2 = lin gdfdict_c2;
          avg_t1 = map (mean_time POINTS1) (group_ids POINTS1)
      in bindL (quiet (mapE (to_datetime L) avg_t1)) (\<lambda>dt1_df.
         let avg_t2 = map (mean_time POINTS2) (group_ids POINTS2)
         in bindL (quiet (mapE (to_datetime L) avg_t2)) (\<lambda>dt2_df.
            bindL (identify_outer L cfg POINTS1 POINTS2 LINES2 dt1_df dt2_df
                     (enumerate 0 LINES1)) (\<lambda>rows.
            bindL (logger INFO ''Saving results to GeoDataFrame...'') (\<lambda>_.
            quiet (Inr rows))))))"

section \<open>The track builder\<close>

text \<open>
  What \<open>_compile_shp\<close> reads from one L1p file: the file's name, the arrays latitude,
  longitude and timestamp of the group \<open>time_orbit\<close>, the array flag of the group
  \<open>surface_type\<close>, and the array dist_coast of the group \<open>classifier\<close> when the file has one.
\<close>

record l1p_file =
  ncfile :: string
  latitude :: "real list"
  longitude :: "real list"
  timestamp :: "real list"
  flag :: "int list"
  dist_coast :: "real list option"

text \<open>
  An elementwise operation on two numpy arrays: equal lengths, or one of length one that is
  repeated; any other pair of lengths raises ValueError.
\<close>

definition broadcast2 ::
  "('a \<Rightarrow> 'b \<Rightarrow> 'c) \<Rightarrow> 'a list \<Rightarrow> 'b list \<Rightarrow> py_error + 'c list" where
  "broadcast2 f xs ys =
     (if length xs = length ys then Inr (map2 f xs ys)
      else if length xs = 1 then Inr (map (f (hd xs)) ys)
      else if length ys = 1 then Inr (map (\<lambda>x. f x (hd ys)) xs)
      else Inl ValueError)"

text \<open>
  The AOI branch. In the last branch the argument of \<open>logger.critical\<close> is the f-string
  \<open>f'{self.aoi} undefined!'\<close>; \<open>PreProcessor\<close> has the attributes cfg, year, month,
  path_carrier1, path_carrier2, files_carrier1 and files_carrier2 and no attribute aoi, so
  evaluating the argument raises AttributeError before the logger is called.
\<close>

definition aoi_select :: "configuration \<Rightarrow> real list \<Rightarrow> real list \<Rightarrow> nat list logged" where
  "aoi_select cfg lat_a lon_a =
     (if aoi cfg = ''arc'' then
        quiet (bindE (broadcast2 (\<lambda>la lo.
                        (la \<ge> 65 \<and> lo \<le> - 85 \<and> lo \<ge> - 180)
                      \<or> (la \<ge> 65 \<and> lo \<le> 275 \<and> lo \<ge> 180)
                      \<or> (la \<ge> 70 \<and> lo \<ge> 70 \<and> lo \<le> 180)) lat_a lon_a)
                 (\<lambda>m. Inr (np_where m)))
      else if aoi cfg = ''ant'' then
        quiet (Inr (np_where (map (\<lambda>la. la \<le> - 55) lat_a)))
      else
        quiet (Inl AttributeError))"

text \<open>A row of the frame \<open>xo_preproc\<close>, before the geometry column is added.\<close>

record raw_row =
  raw_id :: string
  raw_time :: real
  raw_lat :: real
  raw_lon :: real
  raw_fidx :: nat

text \<open>
  The body of the loop over the files, for one file: the data frame appended to
  \<open>xo_preproc\<close>. (\<open>len(aoi_idx)\<close> is the length of the tuple \<open>np.where\<close> returns, which is 1,
  so the frame is always appended.)
\<close>

definition compile_file :: "configuration \<Rightarrow> l1p_file \<Rightarrow> raw_row list logged" where
  "compile_file cfg f =
     bindL (logger INFO ''Processing:'') (\<lambda>_.
     let lat_a = latitude f; lon_a = longitude f; tmp = timestamp f; sft = flag f
     in bindL (aoi_select cfg lat_a lon_a) (\<lambda>aoi_idx.
        bindL (quiet (iloc_list sft aoi_idx)) (\<lambda>sft_aoi.
        let idx2pick = np_where (map (\<lambda>v. v = 1) sft_aoi)
        in bindL (case dist_coast f of
                    Some d2c \<Rightarrow>
                      bindL (quiet (iloc_list d2c idx2pick)) (\<lambda>d2c_pick.
                      quiet (Inr (np_where (map (\<lambda>d. d \<ge> buffersize cfg) d2c_pick))))
                  | None \<Rightarrow> quiet (Inr idx2pick)) (\<lambda>idx2pick.
           bindL (quiet (iloc_list tmp idx2pick)) (\<lambda>time_col.
           bindL (quiet (iloc_list lat_a idx2pick)) (\<lambda>lat_col.
           bindL (quiet (iloc_list lon_a idx2pick)) (\<lambda>lon_col.
           quiet (Inr (map (\<lambda>k. \<lparr>raw_id = ncfile f, raw_time = time_col ! k,
                                  raw_lat = lat_col ! k, raw_lon = lon_col ! k,
                                  raw_fidx = idx2pick ! k\<rparr>)
                         [0..<length idx2pick])))))))))"

fun compile_files :: "configuration \<Rightarrow> l1p_file list \<Rightarrow> raw_row list list logged" where
  "compile_files cfg [] = quiet (Inr [])"
| "compile_files cfg (f # fs) =
     bindL (compile_file cfg f) (\<lambda>d.
     bindL (compile_files cfg fs) (\<lambda>ds. quiet (Inr (d # ds))))"

text \<open>\<open>pd.concat\<close> raises ValueError on an empty list of frames.\<close>

definition pd_concat :: "'a list list \<Rightarrow> py_error + 'a list" where
  "pd_concat frames = (if frames = [] then Inl ValueError else Inr (concat frames))"

text \<open>
  The geometry column: \<open>points_from_xy(lon, lat)\<close>, reprojected by \<open>to_crs\<close>; the library's
  \<open>points_from_xy\<close> stands for both.
\<close>

definition add_geometry :: "'g lib \<Rightarrow> raw_row \<Rightarrow> 'g point_row" where
  "add_geometry L r =
     \<lparr>id' = raw_id r, time = raw_time r, lat = raw_lat r, lon = raw_lon r,
      fidx = raw_fidx r, geometry = points_from_xy L (raw_lon r) (raw_lat r)\<rparr>"

text \<open>
  The line frame: \<open>groupby(['id'])\<close> on the geometry column, one row per id, the ids
  ascending; the polyline of the group's points in their order, \<open>None\<close> for a group of
  fewer than two. On a point frame without rows the result of \<open>apply\<close> has no column
  \<open>id\<close>, and \<open>lin.id\<close> raises AttributeError (in \<open>compile_shp\<close>).
\<close>

definition compile_lines :: "'g lib \<Rightarrow> 'g point_row list \<Rightarrow> 'g line_row list" where
  "compile_lines L POINTS =
     map (\<lambda>i. let x = map geometry (filter (\<lambda>r. id' r = i) POINTS)
               in (i, if length x \<ge> 2 then Some (line_string L x) else None))
       (group_ids POINTS)"

definition compile_shp :: "'g lib \<Rightarrow> configuration \<Rightarrow> l1p_file list \<Rightarrow> 'g gdfdict logged" where
  "compile_shp L cfg files =
     bindL (compile_files cfg files) (\<lambda>xo_preproc.
     bindL (logger INFO ''Converting data to pandas df...'') (\<lambda>_.
     bindL (quiet (pd_concat xo_preproc)) (\<lambda>xo_preproc.
     bindL (logger INFO ''Complete!'') (\<lambda>_.
     bindL (logger INFO ''Converting data into EASE2-based geopandas gdf...'') (\<lambda>_.
     let POINTS = map (add_geometry L) xo_preproc
     in bindL (logger INFO ''Complete!'') (\<lambda>_.
        bindL (logger INFO ''Compile orbit tracks...'') (\<lambda>_.
        bindL (quiet (if POINTS = [] then Inl AttributeError
                      else Inr (compile_lines L POINTS))) (\<lambda>LINES.
        bindL (logger INFO ''Complete!'') (\<lambda>_.
        quiet (Inr \<lparr>pts = POINTS, lin = LINES\<rparr>))))))))))"

section \<open>Export and the whole run\<close>

text \<open>
  \<open>_export_shp\<close> returns the frame it has written to the shapefile; on an empty frame it
  calls \<open>sys.exit()\<close>, without an argument.
\<close>

definition export_shp :: "(attrs \<times> 'g) list \<Rightarrow> (attrs \<times> 'g) list logged" where
  "export_shp id_gdf =
     (if length id_gdf > 0 then
        bindL (logger INFO ''Exporting data to shapefiles...'') (\<lambda>_.
        bindL (logger INFO ''Complete.'') (\<lambda>_.
        quiet (Inr id_gdf)))
      else
        bindL (logger CRITICAL ''No matches found to export!'') (\<lambda>_.
        quiet (Inl (SystemExit None))))"

definition run ::
  "'g lib \<Rightarrow> configuration \<Rightarrow> l1p_file list \<Rightarrow> l1p_file list \<Rightarrow> (attrs \<times> 'g) list logged" where
  "run L cfg files_carrier1 files_carrier2 =
     bindL (compile_shp L cfg files_carrier1) (\<lambda>carrier1_gdfdict.
     bindL (compile_shp L cfg files_carrier2) (\<lambda>carrier2_gdfdict.
     bindL (identify L cfg carrier1_gdfdict carrier2_gdfdict) (\<lambda>id_gdf.
     export_shp id_gdf)))"

text \<open>
  The exit status of the Python interpreter when the outcome reaches the top level:
  0 after a return, the argument of \<open>sys.exit\<close> after a SystemExit (0 when the argument is
  \<open>None\<close>), 1 after any other exception.
\<close>

definition exit_status :: "'a logged \<Rightarrow> int" where
  "exit_status r =
     (case snd r of
        Inr _ \<Rightarrow> 0
      | Inl (SystemExit None) \<Rightarrow> 0
      | Inl (SystemExit (Some n)) \<Rightarrow> n
      | Inl _ \<Rightarrow> 1)"

section \<open>A small instance of the libraries\<close>

text \<open>
  Geometry on a line of integer cells, for evaluating the functions on concrete tracks:
  a geometry is the list of its cells, a point is one cell, a buffer of size at least 1
  adds the neighbouring cells, and the intersection of two geometries is their common
  cells: no cell is the empty line string, one cell a point, more cells a line string.
  Datetimes are the timestamps themselves, and the arithmetic is exact: \<open>np_round\<close> scales
  by \<open>10 ^ d\<close>, rounds half to even and scales back.
\<close>

definition rint :: "real \<Rightarrow> int" where
  "rint x =
     (let f = \<lfloor>x\<rfloor>; d = x - of_int f
      in if d < 1 / 2 then f else if 1 / 2 < d then f + 1 else if even f then f else f + 1)"

definition cells_round :: "real \<Rightarrow> nat \<Rightarrow> real" where
  "cells_round x d = of_int (rint (x * 10 ^ d)) / 10 ^ d"

definition cells_type :: "int list \<Rightarrow> shapely_type" where
  "cells_type g = (case g of [] \<Rightarrow> LineString | [x] \<Rightarrow> Point | _ \<Rightarrow> LineString)"

definition cells_buffer :: "int list \<Rightarrow> real \<Rightarrow> int list" where
  "cells_buffer g r = (if 1 \<le> r then concat (map (\<lambda>x. [x - 1, x, x + 1]) g) else g)"

definition cells :: "int list lib" where
  "cells =
     \<lparr>intersection = (\<lambda>a b. filter (\<lambda>x. x \<in> set b) a),
      buffer = cells_buffer,
      intersects = (\<lambda>a b. list_ex (\<lambda>x. x \<in> set b) a),
      distance = (\<lambda>a b. 0),
      geom_type = cells_type,
      is_empty = (\<lambda>g. g = []),
      line_string = concat,
      points_from_xy = (\<lambda>x y. [\<lfloor>x\<rfloor>]),
      fromtimestamp = Inr,
      to_datetime = Inr,
      total_seconds = (\<lambda>x. x),
      fdiv = (\<lambda>x y. x / y),
      np_round = cells_round\<rparr>"

section \<open>Names for the terms of the claims\<close>

text \<open>
  The rows of a track in the point frame (\<open>POINTS[POINTS['id'] == xo_id]\<close>) and the
  positions of its rows that are attributed to a match.
\<close>

abbreviation points_on_line :: "'g point_row list \<Rightarrow> string \<Rightarrow> 'g point_row list" where
  "points_on_line POINTS i \<equiv> filter (\<lambda>r. id' r = i) POINTS"

abbreviation attributed ::
  "'g lib \<Rightarrow> configuration \<Rightarrow> 'g \<Rightarrow> 'g point_row list \<Rightarrow> string \<Rightarrow> nat list" where
  "attributed L cfg m POINTS i \<equiv> identify_points_in_match L cfg m (points_on_line POINTS i)"

text \<open>
  The measurements of a file that the filters of the track builder are meant to keep, by
  their positions in the file's full-length arrays: inside the configured AOI, of surface
  type ocean (flag 1) and, when the file has the distances to the coast, at least the
  buffer size away from it. This follows the words of the specification (the eligible
  samples) and the comments of the source, not the index arithmetic of \<open>compile_file\<close>,
  with which it is compared.
\<close>

definition in_aoi :: "configuration \<Rightarrow> real \<Rightarrow> real \<Rightarrow> bool" where
  "in_aoi cfg la lo =
     (if aoi cfg = ''arc'' then
        (la \<ge> 65 \<and> lo \<le> - 85 \<and> lo \<ge> - 180)
      \<or> (la \<ge> 65 \<and> lo \<le> 275 \<and> lo \<ge> 180)
      \<or> (la \<ge> 70 \<and> lo \<ge> 70 \<and> lo \<le> 180)
      else aoi cfg = ''ant'' \<and> la \<le> - 55)"

definition eligible_positions :: "configuration \<Rightarrow> l1p_file \<Rightarrow> nat list" where
  "eligible_positions cfg f =
     filter (\<lambda>i. in_aoi cfg (latitude f ! i) (longitude f ! i) \<and> flag f ! i = 1 \<and>
                 (case dist_coast f of None \<Rightarrow> True | Some d2c \<Rightarrow> d2c ! i \<ge> buffersize cfg))
       [0..<length (latitude f)]"

section \<open>Concrete configurations, files and frames\<close>

definition cfg_xo :: configuration where
  "cfg_xo = \<lparr>aoi = ''arc'', buffersize = 1, matchtype = ''xo'', delta_t = 3\<rparr>"

definition cfg_otm :: configuration where
  "cfg_otm = \<lparr>aoi = ''arc'', buffersize = 1, matchtype = ''otm'', delta_t = 3\<rparr>"

definition cfg_baltic :: configuration where
  "cfg_baltic = \<lparr>aoi = ''baltic'', buffersize = 1, matchtype = ''xo'', delta_t = 3\<rparr>"

text \<open>
  Files whose measurements lie in the eastern Arctic box, one cell of the line per degree of
  longitude. Track a runs over the cells 100 to 102 (its first measurement is not ocean),
  track b over 102 to 104, an hour or two later; they cross in cell 102. Track h has one
  eligible measurement, track g is far from the others, and track c is shorter than
  track d, which it meets at its first cell.
\<close>

definition file_a :: l1p_file where
  "file_a = \<lparr>ncfile = ''a'', latitude = [80, 80, 80, 80], longitude = [99, 100, 101, 102],
             timestamp = [0, 0, 10, 20], flag = [0, 1, 1, 1], dist_coast = None\<rparr>"

definition file_b :: l1p_file where
  "file_b = \<lparr>ncfile = ''b'', latitude = [80, 80, 80], longitude = [102, 103, 104],
             timestamp = [7210, 7220, 7230], flag = [1, 1, 1], dist_coast = None\<rparr>"

definition file_h :: l1p_file where
  "file_h = \<lparr>ncfile = ''h'', latitude = [80, 0], longitude = [102, 102],
             timestamp = [30, 40], flag = [1, 1], dist_coast = Some [5, 5]\<rparr>"

definition file_g :: l1p_file where
  "file_g = \<lparr>ncfile = ''g'', latitude = [80, 80], longitude = [110, 111],
             timestamp = [100, 110], flag = [1, 1], dist_coast = None\<rparr>"

definition file_c :: l1p_file where
  "file_c = \<lparr>ncfile = ''c'', latitude = [80, 80], longitude = [103, 104],
             timestamp = [0, 10], flag = [1, 1], dist_coast = None\<rparr>"

definition file_d :: l1p_file where
  "file_d = \<lparr>ncfile = ''d'', latitude = [80, 80, 80, 80], longitude = [100, 101, 102, 103],
             timestamp = [0, 10, 20, 30], flag = [1, 1, 1, 1], dist_coast = None\<rparr>"

text \<open>
  File m has three measurements: the first is outside the box, the second is inside and
  not ocean, the third is inside and ocean.
\<close>

definition file_m :: l1p_file where
  "file_m = \<lparr>ncfile = ''m'', latitude = [0, 80, 80], longitude = [100, 101, 102],
             timestamp = [0, 10, 20], flag = [1, 0, 1], dist_coast = None\<rparr>"

text \<open>The frames \<open>compile_shp\<close> builds from these files, and the record of the crossing.\<close>

definition pt :: "string \<Rightarrow> real \<Rightarrow> real \<Rightarrow> nat \<Rightarrow> int list point_row" where
  "pt i t x k = \<lparr>id' = i, time = t, lat = 80, lon = x, fidx = k, geometry = [\<lfloor>x\<rfloor>]\<rparr>"

definition gdf_a :: "int list gdfdict" where
  "gdf_a = \<lparr>pts = [pt ''a'' 0 100 1, pt ''a'' 10 101 2, pt ''a'' 20 102 3],
            lin = [(''a'', Some [100, 101, 102])]\<rparr>"

definition gdf_b :: "int list gdfdict" where
  "gdf_b = \<lparr>pts = [pt ''b'' 7210 102 0, pt ''b'' 7220 103 1, pt ''b'' 7230 104 2],
            lin = [(''b'', Some [102, 103, 104])]\<rparr>"

definition gdf_ha :: "int list gdfdict" where
  "gdf_ha = \<lparr>pts = [pt ''h'' 30 102 0, pt ''a'' 0 100 1, pt ''a'' 10 101 2, pt ''a'' 20 102 3],
             lin = [(''a'', Some [100, 101, 102]), (''h'', None)]\<rparr>"

definition gdf_g :: "int list gdfdict" where
  "gdf_g = \<lparr>pts = [pt ''g'' 100 110 0, pt ''g'' 110 111 1], lin = [(''g'', Some [110, 111])]\<rparr>"

definition gdf_c :: "int list gdfdict" where
  "gdf_c = \<lparr>pts = [pt ''c'' 0 103 0, pt ''c'' 10 104 1], lin = [(''c'', Some [103, 104])]\<rparr>"

definition gdf_d :: "int list gdfdict" where
  "gdf_d = \<lparr>pts = [pt ''d'' 0 100 0, pt ''d'' 10 101 1, pt ''d'' 20 102 2, pt ''d'' 30 103 3],
            lin = [(''d'', Some [100, 101, 102, 103])]\<rparr>"

definition attrs_ab :: attrs where
  "attrs_ab = \<lparr>l1p_c1 = ''a'', l1p_c2 = ''b'', c1_rng_0 = 2, c1_rng_1 = 3,
               c2_rng_0 = 0, c2_rng_1 = 1, match_dt = 2\<rparr>"

text \<open>Track a again, with file indices that fall along the track.\<close>

definition gdf_r :: "int list gdfdict" where
  "gdf_r = \<lparr>pts = [pt ''a'' 0 100 9, pt ''a'' 10 101 8, pt ''a'' 20 102 7],
            lin = [(''a'', Some [100, 101, 102])]\<rparr>"

definition attrs_rb :: attrs where
  "attrs_rb = \<lparr>l1p_c1 = ''a'', l1p_c2 = ''b'', c1_rng_0 = 8, c1_rng_1 = 7,
               c2_rng_0 = 0, c2_rng_1 = 1, match_dt = 2\<rparr>"

text \<open>
  Tracks e and f run over the same 51 cells, 100 to 150, an hour apart, one sample per
  cell: their frames, and the record of their match under \<open>otm\<close>.
\<close>

definition line_e :: "int list" where
  "line_e = map (\<lambda>k. 100 + int k) [0..<51]"

definition gdf_e :: "int list gdfdict" where
  "gdf_e = \<lparr>pts = map (\<lambda>k. pt ''e'' (real k) (100 + real k) k) [0..<51],
            lin = [(''e'', Some line_e)]\<rparr>"

definition gdf_f :: "int list gdfdict" where
  "gdf_f = \<lparr>pts = map (\<lambda>k. pt ''f'' (3600 + real k) (100 + real k) k) [0..<51],
            lin = [(''f'', Some line_e)]\<rparr>"

definition attrs_ef :: attrs where
  "attrs_ef = \<lparr>l1p_c1 = ''e'', l1p_c2 = ''f'', c1_rng_0 = 0, c1_rng_1 = 50,
               c2_rng_0 = 0, c2_rng_1 = 50, match_dt = 1\<rparr>"


section \<open>Auxiliary facts\<close>

subsection \<open>Errors, logs and indexing\<close>

text \<open>
  The combinators that thread exceptions and log records, and positional indexing.
\<close>

lemma bindE_Inr [simp]: "bindE (Inr x) f = f x"
  by (simp add: bindE_def)

lemma bindE_Inl [simp]: "bindE (Inl e) f = Inl e"
  by (simp add: bindE_def)

lemma bindE_Inr_iff: "bindE m f = Inr y \<longleftrightarrow> (\<exists>x. m = Inr x \<and> f x = Inr y)"
  by (cases m) (auto simp: bindE_def)

lemma bindL_quiet_Inr [simp]: "bindL (quiet (Inr x)) f = f x"
  by (simp add: bindL_def quiet_def split: prod.splits)

lemma bindL_quiet_Inl [simp]: "bindL (quiet (Inl e)) f = quiet (Inl e)"
  by (simp add: bindL_def quiet_def)

lemma bindL_logger [simp]: "bindL (logger lv msg) f = ((lv, msg) # fst (f ()), snd (f ()))"
  by (simp add: bindL_def logger_def split: prod.splits)

lemma bindL_Inr_iff:
  "bindL m f = (lg, Inr y) \<longleftrightarrow>
     (\<exists>l1 x l2. m = (l1, Inr x) \<and> f x = (l2, Inr y) \<and> lg = l1 @ l2)"
  by (cases m; cases "snd m") (auto simp: bindL_def split: prod.splits sum.splits)

lemma quiet_eq [simp]: "quiet r = (lg, r') \<longleftrightarrow> lg = [] \<and> r = r'"
  by (auto simp: quiet_def)

lemma fst_quiet [simp]: "fst (quiet r) = []"
  by (simp add: quiet_def)

lemma snd_quiet [simp]: "snd (quiet r) = r"
  by (simp add: quiet_def)

lemma snd_bindL: "snd (bindL m f) = bindE (snd m) (\<lambda>x. snd (f x))"
  by (cases m; cases "snd m") (auto simp: bindL_def split: prod.splits)

lemma snd_logger [simp]: "snd (logger lv msg) = Inr ()"
  by (simp add: logger_def)

lemma iloc_list_subset: "iloc_list xs ps = Inr ys \<Longrightarrow> set ys \<subseteq> set xs"
  by (auto simp: iloc_list_def list_all_iff split: if_splits)

lemma hd_filter: "filter P xs \<noteq> [] \<Longrightarrow> P (hd (filter P xs))"
  using hd_in_set [of "filter P xs"] by simp

subsection \<open>Attribution and synthesis\<close>

text \<open>
  The attributed positions are positions of the track's rows, in ascending order; so the
  index lookups of the synthesis succeed, and a returned tuple has the fields below.
\<close>

lemma in_match_set:
  "set (identify_points_in_match L cfg m ps) =
     {i. i < length ps \<and> intersects L (geometry (ps ! i)) (buffer L m (buffersize cfg))}"
  by (auto simp: identify_points_in_match_def Let_def)

lemma in_match_bound: "i \<in> set (identify_points_in_match L cfg m ps) \<Longrightarrow> i < length ps"
  by (simp add: in_match_set)

lemma in_match_sorted: "sorted_wrt (<) (identify_points_in_match L cfg m ps)"
  unfolding identify_points_in_match_def Let_def
  by (rule sorted_wrt_filter) simp

lemma in_match_nonempty: "identify_points_in_match L cfg m ps \<noteq> [] \<Longrightarrow> ps \<noteq> []"
  by (auto simp: identify_points_in_match_def)

lemma in_match_empty:
  assumes "is_empty L m"
      and "\<And>h r. is_empty L h \<Longrightarrow> is_empty L (buffer L h r)"
      and "\<And>p h. is_empty L h \<Longrightarrow> \<not> intersects L p h"
  shows "identify_points_in_match L cfg m ps = []"
  using assms by (simp add: identify_points_in_match_def Let_def)

lemma iloc_list_in_match:
  "iloc_list (map f ps) (identify_points_in_match L cfg m ps) =
     Inr (map (\<lambda>i. f (ps ! i)) (identify_points_in_match L cfg m ps))"
  by (simp add: iloc_list_def list_all_iff in_match_bound)

lemma match_attrs_eq:
  assumes "\<And>i. i \<in> set in1 \<Longrightarrow> i < length l1"
      and "\<And>i. i \<in> set in2 \<Longrightarrow> i < length l2"
      and "in1 \<noteq> []" and "in2 \<noteq> []"
  shows "match_attrs L l1 l2 in1 in2 (map (\<lambda>i. fidx (l1 ! i)) in1) (map (\<lambda>i. fidx (l2 ! i)) in2) =
     bindE (fromtimestamp L (time (l1 ! (in1 ! (length in1 div 2))))) (\<lambda>d1.
     bindE (fromtimestamp L (time (l2 ! (in2 ! (length in2 div 2))))) (\<lambda>d2.
     Inr \<lparr>l1p_c1 = id' (hd l1), l1p_c2 = id' (hd l2),
          c1_rng_0 = fidx (l1 ! hd in1), c1_rng_1 = fidx (l1 ! last in1),
          c2_rng_0 = fidx (l2 ! hd in2), c2_rng_1 = fidx (l2 ! last in2),
          match_dt = np_round L \<bar>fdiv L (total_seconds L (d1 - d2)) 3600\<bar> 3\<rparr>))"
proof -
  have n1: "length in1 div 2 < length in1" and n2: "length in2 div 2 < length in2"
    using assms(3,4) by simp_all
  have b1: "in1 ! (length in1 div 2) < length l1"
    using n1 assms(1) nth_mem by metis
  have b2: "in2 ! (length in2 div 2) < length l2"
    using n2 assms(2) nth_mem by metis
  have e1: "l1 \<noteq> []" using b1 by auto
  have e2: "l2 \<noteq> []" using b2 by auto
  show ?thesis
    using n1 n2 b1 b2 e1 e2 assms(3,4)
    by (simp add: match_attrs_def Let_def iloc_def iloc_last_def hd_map last_map hd_conv_nth)
qed

lemma identify_XOs_Some:
  assumes "identify_XOs L cfg m l1 l2 = Inr (Some a)"
  defines "in1 \<equiv> identify_points_in_match L cfg m l1"
      and "in2 \<equiv> identify_points_in_match L cfg m l2"
  shows "in1 \<noteq> [] \<and> in2 \<noteq> [] \<and>
     (\<exists>d1 d2. fromtimestamp L (time (l1 ! (in1 ! (length in1 div 2)))) = Inr d1 \<and>
              fromtimestamp L (time (l2 ! (in2 ! (length in2 div 2)))) = Inr d2 \<and>
              a = \<lparr>l1p_c1 = id' (hd l1), l1p_c2 = id' (hd l2),
                   c1_rng_0 = fidx (l1 ! hd in1), c1_rng_1 = fidx (l1 ! last in1),
                   c2_rng_0 = fidx (l2 ! hd in2), c2_rng_1 = fidx (l2 ! last in2),
                   match_dt = np_round L \<bar>fdiv L (total_seconds L (d1 - d2)) 3600\<bar> 3\<rparr>)"
proof -
  have ne: "in1 \<noteq> [] \<and> in2 \<noteq> []"
    using assms(1) unfolding identify_XOs_def Let_def in1_def in2_def
    by (auto split: if_splits)
  then have "bindE (match_attrs L l1 l2 in1 in2 (map (\<lambda>i. fidx (l1 ! i)) in1)
                 (map (\<lambda>i. fidx (l2 ! i)) in2)) (\<lambda>ATTRS. Inr (Some ATTRS)) = Inr (Some a)"
    using assms(1) unfolding identify_XOs_def Let_def in1_def in2_def
    by (auto simp: iloc_list_in_match bindE_Inr_iff split: if_splits)
  then have "match_attrs L l1 l2 in1 in2 (map (\<lambda>i. fidx (l1 ! i)) in1)
                 (map (\<lambda>i. fidx (l2 ! i)) in2) = Inr a"
    by (auto simp: bindE_Inr_iff)
  moreover have "\<And>i. i \<in> set in1 \<Longrightarrow> i < length l1" "\<And>i. i \<in> set in2 \<Longrightarrow> i < length l2"
    unfolding in1_def in2_def by (auto dest: in_match_bound)
  ultimately show ?thesis
    using ne match_attrs_eq [of in1 l1 in2 l2 L]
    by (auto simp: bindE_Inr_iff)
qed

lemma identify_OTMs_Some:
  assumes "identify_OTMs L cfg m l1 l2 = Inr (Some a)"
  defines "in1 \<equiv> identify_points_in_match L cfg m l1"
      and "in2 \<equiv> identify_points_in_match L cfg m l2"
  shows "50 < length in1 \<and> 50 < length in2 \<and>
     (\<exists>d1 d2. fromtimestamp L (time (l1 ! (in1 ! (length in1 div 2)))) = Inr d1 \<and>
              fromtimestamp L (time (l2 ! (in2 ! (length in2 div 2)))) = Inr d2 \<and>
              a = \<lparr>l1p_c1 = id' (hd l1), l1p_c2 = id' (hd l2),
                   c1_rng_0 = fidx (l1 ! hd in1), c1_rng_1 = fidx (l1 ! last in1),
                   c2_rng_0 = fidx (l2 ! hd in2), c2_rng_1 = fidx (l2 ! last in2),
                   match_dt = np_round L \<bar>fdiv L (total_seconds L (d1 - d2)) 3600\<bar> 3\<rparr>)"
proof -
  have ln: "50 < length in1 \<and> 50 < length in2"
    using assms(1) unfolding identify_OTMs_def Let_def in1_def in2_def
    by (auto split: if_splits)
  then have ne: "in1 \<noteq> []" "in2 \<noteq> []" by auto
  have "bindE (match_attrs L l1 l2 in1 in2 (map (\<lambda>i. fidx (l1 ! i)) in1)
                 (map (\<lambda>i. fidx (l2 ! i)) in2)) (\<lambda>ATTRS. Inr (Some ATTRS)) = Inr (Some a)"
    using assms(1) ln unfolding identify_OTMs_def Let_def in1_def in2_def
    by (auto simp: iloc_list_in_match bindE_Inr_iff split: if_splits)
  then have "match_attrs L l1 l2 in1 in2 (map (\<lambda>i. fidx (l1 ! i)) in1)
                 (map (\<lambda>i. fidx (l2 ! i)) in2) = Inr a"
    by (auto simp: bindE_Inr_iff)
  moreover have "\<And>i. i \<in> set in1 \<Longrightarrow> i < length l1" "\<And>i. i \<in> set in2 \<Longrightarrow> i < length l2"
    unfolding in1_def in2_def by (auto dest: in_match_bound)
  ultimately show ?thesis
    using ln ne match_attrs_eq [of in1 l1 in2 l2 L]
    by (auto simp: bindE_Inr_iff)
qed

lemma synthesis_Some:
  assumes "identify_XOs L cfg m l1 l2 = Inr (Some a) \<or> identify_OTMs L cfg m l1 l2 = Inr (Some a)"
  defines "in1 \<equiv> identify_points_in_match L cfg m l1"
      and "in2 \<equiv> identify_points_in_match L cfg m l2"
  shows "in1 \<noteq> [] \<and> in2 \<noteq> [] \<and>
     (\<exists>d1 d2. fromtimestamp L (time (l1 ! (in1 ! (length in1 div 2)))) = Inr d1 \<and>
              fromtimestamp L (time (l2 ! (in2 ! (length in2 div 2)))) = Inr d2 \<and>
              match_dt a = np_round L \<bar>fdiv L (total_seconds L (d1 - d2)) 3600\<bar> 3) \<and>
     l1p_c1 a = id' (hd l1) \<and> l1p_c2 a = id' (hd l2) \<and>
     c1_rng_0 a = fidx (l1 ! hd in1) \<and> c1_rng_1 a = fidx (l1 ! last in1) \<and>
     c2_rng_0 a = fidx (l2 ! hd in2) \<and> c2_rng_1 a = fidx (l2 ! last in2)"
  using assms(1)
proof
  assume "identify_XOs L cfg m l1 l2 = Inr (Some a)"
  from identify_XOs_Some [OF this] show ?thesis
    unfolding in1_def in2_def by fastforce
next
  assume "identify_OTMs L cfg m l1 l2 = Inr (Some a)"
  from identify_OTMs_Some [OF this] show ?thesis
    unfolding in1_def in2_def by fastforce
qed

lemma identify_XOs_None:
  "length (identify_points_in_match L cfg m l1) < 1 \<or>
   length (identify_points_in_match L cfg m l2) < 1 \<Longrightarrow>
   identify_XOs L cfg m l1 l2 = Inr None"
  by (auto simp: identify_XOs_def Let_def)

lemma identify_OTMs_None:
  "length (identify_points_in_match L cfg m l1) < 51 \<or>
   length (identify_points_in_match L cfg m l2) < 51 \<Longrightarrow>
   identify_OTMs L cfg m l1 l2 = Inr None"
  by (auto simp: identify_OTMs_def Let_def)

subsection \<open>The driver\<close>

text \<open>
  Every row of the result frame was returned by the loop body for a pair of line rows.
\<close>

lemma identify_pair_Some:
  assumes "identify_pair L cfg P1 P2 row1 row2 = (lg, Inr (Some (a, g)))"
  shows "\<exists>i1 lin1 i2 lin2. row1 = (i1, Some lin1) \<and> row2 = (i2, Some lin2) \<and>
           identify_intersection L cfg lin1 lin2 = Some g \<and>
           ((geom_type L g = Point \<and> matchtype cfg = ''xo'' \<and>
             identify_XOs L cfg g (filter (\<lambda>r. id' r = i1) P1) (filter (\<lambda>r. id' r = i2) P2)
               = Inr (Some a)) \<or>
            (geom_type L g = LineString \<and> matchtype cfg = ''otm'' \<and>
             identify_OTMs L cfg g (filter (\<lambda>r. id' r = i1) P1) (filter (\<lambda>r. id' r = i2) P2)
               = Inr (Some a)))"
proof -
  obtain i1 o1 i2 o2 where r: "row1 = (i1, o1)" "row2 = (i2, o2)"
    by (cases row1; cases row2) auto
  from assms r obtain lin1 lin2 where o: "o1 = Some lin1" "o2 = Some lin2"
    by (cases o1; cases o2) (auto simp: identify_pair_def)
  from assms r o obtain g' where m: "identify_intersection L cfg lin1 lin2 = Some g'"
    by (cases "identify_intersection L cfg lin1 lin2") (auto simp: identify_pair_def Let_def)
  let ?l1 = "filter (\<lambda>r. id' r = i1) P1" and ?l2 = "filter (\<lambda>r. id' r = i2) P2"
  consider (xo) "geom_type L g' = Point \<and> matchtype cfg = ''xo''"
    | (otm) "\<not> (geom_type L g' = Point \<and> matchtype cfg = ''xo'')"
            "geom_type L g' = LineString \<and> matchtype cfg = ''otm''"
    | (other) "\<not> (geom_type L g' = Point \<and> matchtype cfg = ''xo'')"
              "\<not> (geom_type L g' = LineString \<and> matchtype cfg = ''otm'')"
    by blast
  then show ?thesis
  proof cases
    case xo
    with assms r o m have "bindL (quiet (identify_XOs L cfg g' ?l1 ?l2))
        (\<lambda>ATTRS. quiet (Inr (map_option (\<lambda>a. (a, g')) ATTRS))) = (lg, Inr (Some (a, g)))"
      by (simp add: identify_pair_def Let_def)
    then have "identify_XOs L cfg g' ?l1 ?l2 = Inr (Some a) \<and> g' = g"
      by (auto simp: bindL_Inr_iff)
    with r o m xo show ?thesis by auto
  next
    case otm
    with assms r o m have "bindL (quiet (identify_OTMs L cfg g' ?l1 ?l2))
        (\<lambda>ATTRS. quiet (Inr (map_option (\<lambda>a. (a, g')) ATTRS))) = (lg, Inr (Some (a, g)))"
      by (simp add: identify_pair_def Let_def)
    then have "identify_OTMs L cfg g' ?l1 ?l2 = Inr (Some a) \<and> g' = g"
      by (auto simp: bindL_Inr_iff)
    with r o m otm show ?thesis by auto
  next
    case other
    with assms r o m show ?thesis
      by (auto simp: identify_pair_def Let_def)
  qed
qed

lemma identify_pair_lines:
  assumes "identify_intersection L cfg lin1 lin2 = Some m"
  shows "identify_pair L cfg P1 P2 (i1, Some lin1) (i2, Some lin2) =
     (if geom_type L m = Point \<and> matchtype cfg = ''xo'' then
        bindL (quiet (identify_XOs L cfg m (points_on_line P1 i1) (points_on_line P2 i2)))
          (\<lambda>ATTRS. quiet (Inr (map_option (\<lambda>a. (a, m)) ATTRS)))
      else if geom_type L m = LineString \<and> matchtype cfg = ''otm'' then
        bindL (quiet (identify_OTMs L cfg m (points_on_line P1 i1) (points_on_line P2 i2)))
          (\<lambda>ATTRS. quiet (Inr (map_option (\<lambda>a. (a, m)) ATTRS)))
      else ([(WARNING, ''Unsupported intersect type'')], Inr None))"
  using assms by (simp add: identify_pair_def Let_def)

lemma identify_pair_no_line:
  "identify_pair L cfg P1 P2 (i1, None) row2 = ([], Inr None)"
  "identify_pair L cfg P1 P2 row1 (i2, None) = ([], Inr None)"
  by (auto simp: identify_pair_def split: prod.splits option.splits)

lemma identify_inner_mem:
  "identify_inner L cfg P1 P2 row1 rows2 = (lg, Inr ms) \<Longrightarrow> x \<in> set ms \<Longrightarrow>
     \<exists>row2 \<in> set rows2. \<exists>lg'. identify_pair L cfg P1 P2 row1 row2 = (lg', Inr (Some x))"
proof (induction rows2 arbitrary: lg ms)
  case Nil
  then show ?case by simp
next
  case (Cons row2 rows2)
  from Cons.prems(1) obtain la m lb ms' where
    p: "identify_pair L cfg P1 P2 row1 row2 = (la, Inr m)" and
    i: "identify_inner L cfg P1 P2 row1 rows2 = (lb, Inr ms')" and
    e: "ms = (case m of None \<Rightarrow> ms' | Some y \<Rightarrow> y # ms')"
    by (auto simp: bindL_Inr_iff)
  show ?case
  proof (cases "x \<in> set ms'")
    case True
    with Cons.IH [OF i] show ?thesis by auto
  next
    case False
    with e Cons.prems(2) have "m = Some x" by (cases m) auto
    with p show ?thesis by auto
  qed
qed

lemma identify_inner_skip:
  assumes "snd (identify_pair L cfg P1 P2 row1 row2) = Inr None"
  shows "identify_inner L cfg P1 P2 row1 (row2 # rows2) =
     (fst (identify_pair L cfg P1 P2 row1 row2) @ fst (identify_inner L cfg P1 P2 row1 rows2),
      snd (identify_inner L cfg P1 P2 row1 rows2))"
proof -
  obtain lg where p: "identify_pair L cfg P1 P2 row1 row2 = (lg, Inr None)"
    using assms by (cases "identify_pair L cfg P1 P2 row1 row2") auto
  obtain lg' r where i: "identify_inner L cfg P1 P2 row1 rows2 = (lg', r)"
    by (cases "identify_inner L cfg P1 P2 row1 rows2")
  show ?thesis
    by (cases r) (simp_all add: p i bindL_def quiet_def)
qed

lemma identify_outer_step_mem:
  assumes "identify_outer_step L cfg P1 P2 LINES2 dt1 dt2 r = (lg, Inr ms)" and "x \<in> set ms"
  shows "\<exists>row2 \<in> set LINES2. \<exists>lg'. identify_pair L cfg P1 P2 (snd r) row2 = (lg', Inr (Some x))"
proof -
  obtain idx1 row1 where r: "r = (idx1, row1)" by (cases r)
  from assms(1) r obtain rows2 lg2 where
    s: "set rows2 \<subseteq> set LINES2" and
    i: "identify_inner L cfg P1 P2 row1 rows2 = (lg2, Inr ms)"
    by (auto simp: identify_outer_step_def Let_def bindL_Inr_iff logger_def
             dest: iloc_list_subset)
  from identify_inner_mem [OF i assms(2)] s r show ?thesis by auto
qed

lemma identify_outer_mem:
  "identify_outer L cfg P1 P2 LINES2 dt1 dt2 rs = (lg, Inr ms) \<Longrightarrow> x \<in> set ms \<Longrightarrow>
     \<exists>r \<in> set rs. \<exists>row2 \<in> set LINES2. \<exists>lg'.
        identify_pair L cfg P1 P2 (snd r) row2 = (lg', Inr (Some x))"
proof (induction rs arbitrary: lg ms)
  case Nil
  then show ?case by simp
next
  case (Cons r rs)
  from Cons.prems(1) obtain la ma lb mb where
    p: "identify_outer_step L cfg P1 P2 LINES2 dt1 dt2 r = (la, Inr ma)" and
    i: "identify_outer L cfg P1 P2 LINES2 dt1 dt2 rs = (lb, Inr mb)" and
    e: "ms = ma @ mb"
    by (auto simp: bindL_Inr_iff)
  from e Cons.prems(2) consider "x \<in> set ma" | "x \<in> set mb" by auto
  then show ?case
  proof cases
    case 1
    from identify_outer_step_mem [OF p 1] show ?thesis by auto
  next
    case 2
    from Cons.IH [OF i 2] show ?thesis by auto
  qed
qed

lemma identify_mem:
  assumes "identify L cfg c1 c2 = (lg, Inr rows)" and "x \<in> set rows"
  shows "\<exists>row1 \<in> set (lin c1). \<exists>row2 \<in> set (lin c2). \<exists>lg'.
           identify_pair L cfg (pts c1) (pts c2) row1 row2 = (lg', Inr (Some x))"
proof -
  from assms(1) obtain dt1 dt2 lg2 where
    "identify_outer L cfg (pts c1) (pts c2) (lin c2) dt1 dt2 (enumerate 0 (lin c1))
       = (lg2, Inr rows)"
    by (auto simp: identify_def Let_def bindL_Inr_iff logger_def)
  from identify_outer_mem [OF this assms(2)] obtain r row2 lg' where
    r: "r \<in> set (enumerate 0 (lin c1))" and "row2 \<in> set (lin c2)" and
    "identify_pair L cfg (pts c1) (pts c2) (snd r) row2 = (lg', Inr (Some x))"
    by blast
  moreover have "snd r \<in> set (lin c1)"
    using r by (auto simp: in_set_enumerate_eq dest: nth_mem)
  ultimately show ?thesis by blast
qed

lemma identify_row:
  assumes "snd (identify L cfg c1 c2) = Inr rows" and "(a, g) \<in> set rows"
  shows "\<exists>lin1 lin2. (l1p_c1 a, Some lin1) \<in> set (lin c1) \<and> (l1p_c2 a, Some lin2) \<in> set (lin c2) \<and>
           identify_intersection L cfg lin1 lin2 = Some g \<and>
           ((geom_type L g = Point \<and> matchtype cfg = ''xo'' \<and>
             identify_XOs L cfg g (points_on_line (pts c1) (l1p_c1 a))
               (points_on_line (pts c2) (l1p_c2 a)) = Inr (Some a)) \<or>
            (geom_type L g = LineString \<and> matchtype cfg = ''otm'' \<and>
             identify_OTMs L cfg g (points_on_line (pts c1) (l1p_c1 a))
               (points_on_line (pts c2) (l1p_c2 a)) = Inr (Some a)))"
proof -
  obtain lg where "identify L cfg c1 c2 = (lg, Inr rows)"
    using assms(1) by (cases "identify L cfg c1 c2") auto
  from identify_mem [OF this assms(2)] obtain row1 row2 lg' where
    r1: "row1 \<in> set (lin c1)" and r2: "row2 \<in> set (lin c2)" and
    p: "identify_pair L cfg (pts c1) (pts c2) row1 row2 = (lg', Inr (Some (a, g)))"
    by blast
  from identify_pair_Some [OF p] obtain i1 lin1 i2 lin2 where
    e: "row1 = (i1, Some lin1)" "row2 = (i2, Some lin2)" and
    m: "identify_intersection L cfg lin1 lin2 = Some g" and
    s: "(geom_type L g = Point \<and> matchtype cfg = ''xo'' \<and>
         identify_XOs L cfg g (points_on_line (pts c1) i1) (points_on_line (pts c2) i2)
           = Inr (Some a)) \<or>
        (geom_type L g = LineString \<and> matchtype cfg = ''otm'' \<and>
         identify_OTMs L cfg g (points_on_line (pts c1) i1) (points_on_line (pts c2) i2)
           = Inr (Some a))"
    by blast
  let ?l1 = "points_on_line (pts c1) i1" and ?l2 = "points_on_line (pts c2) i2"
  from s have "identify_XOs L cfg g ?l1 ?l2 = Inr (Some a) \<or>
               identify_OTMs L cfg g ?l1 ?l2 = Inr (Some a)"
    by blast
  from synthesis_Some [OF this] have
    n: "identify_points_in_match L cfg g ?l1 \<noteq> []" "identify_points_in_match L cfg g ?l2 \<noteq> []"
    and a: "l1p_c1 a = id' (hd ?l1)" "l1p_c2 a = id' (hd ?l2)"
    by auto
  from n have "?l1 \<noteq> []" "?l2 \<noteq> []"
    by (auto dest: in_match_nonempty)
  then have "id' (hd ?l1) = i1" "id' (hd ?l2) = i2"
    by (auto dest: hd_filter)
  with a have "i1 = l1p_c1 a" "i2 = l1p_c2 a" by simp_all
  with r1 r2 e m s show ?thesis by blast
qed

subsection \<open>The track builder\<close>

text \<open>
  The rows of the frames that \<open>compile_shp\<close> returns.
\<close>

lemma compile_lines_mem:
  assumes "(i, p) \<in> set (compile_lines L POINTS)"
  shows "(p = None \<longleftrightarrow> length (points_on_line POINTS i) < 2) \<and>
         1 \<le> length (points_on_line POINTS i)"
proof -
  from assms have i: "i \<in> id' ` set POINTS" and
    p: "p = (if 2 \<le> length (points_on_line POINTS i)
             then Some (line_string L (map geometry (points_on_line POINTS i))) else None)"
    by (auto simp: compile_lines_def group_ids_def Let_def)
  from i have "points_on_line POINTS i \<noteq> []"
    by (auto simp: filter_empty_conv)
  then have "1 \<le> length (points_on_line POINTS i)"
    by (simp add: Suc_le_eq)
  with p show ?thesis by auto
qed

lemma compile_shp_Inr:
  assumes "snd (compile_shp L cfg files) = Inr c"
  shows "\<exists>frames. snd (compile_files cfg files) = Inr frames \<and>
           pts c = map (add_geometry L) (concat frames) \<and>
           lin c = compile_lines L (pts c)"
  using assms
  by (auto simp: compile_shp_def snd_bindL bindE_Inr_iff pd_concat_def Let_def
           split: if_splits)

subsection \<open>The match of tracks e and f\<close>

text \<open>
  The run of \<open>identify\<close> on the two tracks of 51 samples, evaluated once.
\<close>

lemma identify_otm_example: "snd (identify cells cfg_otm gdf_e gdf_f) = Inr [(attrs_ef, line_e)]"
  by code_simp


section \<open>Claims about the emitted records\<close>

text \<open>
  Claim C1. Every record of the result frame has a geometry of the class that the
  configured match type asks for: a Point under \<open>xo\<close>, a LineString under \<open>otm\<close>. A pair
  whose intersection is of any other class for the configured match type yields no record
  (and the warning).
\<close>

theorem match_geometry_fits_match_type:
  "(snd (identify L cfg c1 c2) = Inr rows \<and> (a, g) \<in> set rows \<longrightarrow>
      (matchtype cfg = ''xo'' \<and> geom_type L g = Point) \<or>
      (matchtype cfg = ''otm'' \<and> geom_type L g = LineString)) \<and>
   (identify_intersection L cfg lin1 lin2 = Some m \<and>
    \<not> (matchtype cfg = ''xo'' \<and> geom_type L m = Point) \<and>
    \<not> (matchtype cfg = ''otm'' \<and> geom_type L m = LineString) \<longrightarrow>
      identify_pair L cfg P1 P2 (i1, Some lin1) (i2, Some lin2) =
        ([(WARNING, ''Unsupported intersect type'')], Inr None))"
proof (intro conjI impI)
  assume "snd (identify L cfg c1 c2) = Inr rows \<and> (a, g) \<in> set rows"
  then show "(matchtype cfg = ''xo'' \<and> geom_type L g = Point) \<or>
      (matchtype cfg = ''otm'' \<and> geom_type L g = LineString)"
    using identify_row [of L cfg c1 c2 rows a g] by blast
next
  assume "identify_intersection L cfg lin1 lin2 = Some m \<and>
    \<not> (matchtype cfg = ''xo'' \<and> geom_type L m = Point) \<and>
    \<not> (matchtype cfg = ''otm'' \<and> geom_type L m = LineString)"
  then show "identify_pair L cfg P1 P2 (i1, Some lin1) (i2, Some lin2) =
        ([(WARNING, ''Unsupported intersect type'')], Inr None)"
    by (auto simp: identify_pair_lines)
qed

text \<open>
  Tracks a and b cross in cell 102: the one record of the run has a Point. A track over
  the cells 101 to 103 shares two cells with track a: under \<open>xo\<close> the pair is discarded.
  Under \<open>otm\<close> the record of tracks e and f has a LineString.
\<close>

theorem match_geometry_fits_match_type_witness:
  "snd (identify cells cfg_xo gdf_a gdf_b) = Inr [(attrs_ab, [102])] \<and>
   (attrs_ab, [102 :: int]) \<in> set [(attrs_ab, [102])] \<and>
   matchtype cfg_xo = ''xo'' \<and> geom_type cells [102] = Point \<and>
   identify_intersection cells cfg_xo [100, 101, 102] [101, 102, 103] = Some [101, 102] \<and>
   geom_type cells [101, 102] = LineString \<and>
   identify_pair cells cfg_xo (pts gdf_a) [] (''a'', Some [100, 101, 102])
       (''k'', Some [101, 102, 103]) =
     ([(WARNING, ''Unsupported intersect type'')], Inr None) \<and>
   snd (identify cells cfg_otm gdf_e gdf_f) = Inr [(attrs_ef, line_e)] \<and>
   (attrs_ef, line_e) \<in> set [(attrs_ef, line_e)] \<and>
   matchtype cfg_otm = ''otm'' \<and> geom_type cells line_e = LineString"
proof -
  have a: "snd (identify cells cfg_xo gdf_a gdf_b) = Inr [(attrs_ab, [102])] \<and>
           (attrs_ab, [102 :: int]) \<in> set [(attrs_ab, [102])]"
    by code_simp
  have o: "snd (identify cells cfg_otm gdf_e gdf_f) = Inr [(attrs_ef, line_e)] \<and>
           (attrs_ef, line_e) \<in> set [(attrs_ef, line_e)]"
    by (simp add: identify_otm_example)
  have no: "matchtype cfg_otm = ''otm''"
    by code_simp
  have b: "identify_intersection cells cfg_xo [100, 101, 102] [101, 102, 103] = Some [101, 102]"
    by code_simp
  have c: "geom_type cells [101, 102] = LineString"
    by code_simp
  have n: "matchtype cfg_xo = ''xo''"
    by code_simp
  note t = match_geometry_fits_match_type [where L = cells and cfg = cfg_xo and ?c1.0 = gdf_a
      and ?c2.0 = gdf_b and rows = "[(attrs_ab, [102])]" and a = attrs_ab and g = "[102]"
      and ?lin1.0 = "[100, 101, 102]" and ?lin2.0 = "[101, 102, 103]" and m = "[101, 102]"
      and ?P1.0 = "pts gdf_a" and ?P2.0 = "[]" and ?i1.0 = "''a''" and ?i2.0 = "''k''"]
  from t a n have d: "geom_type cells [102] = Point"
    by simp
  from t b c n have e: "identify_pair cells cfg_xo (pts gdf_a) [] (''a'', Some [100, 101, 102])
       (''k'', Some [101, 102, 103]) = ([(WARNING, ''Unsupported intersect type'')], Inr None)"
    by simp
  from match_geometry_fits_match_type [where L = cells and cfg = cfg_otm and ?c1.0 = gdf_e
      and ?c2.0 = gdf_f and rows = "[(attrs_ef, line_e)]" and a = attrs_ef and g = line_e]
    o no
  have f: "geom_type cells line_e = LineString"
    by simp
  from a b c n d e o no f show ?thesis by simp
qed

text \<open>
  Claim C2. A record is produced for a pair only if both tracks have at least 1 attributed
  sample under \<open>xo\<close>, and more than 50 (at least 51) under \<open>otm\<close>. A pair with a side
  below its threshold yields no record and raises nothing, and the inner loop goes on with
  the following pairs.
\<close>

theorem match_needs_enough_samples:
  "(snd (identify L cfg c1 c2) = Inr rows \<and> (a, g) \<in> set rows \<longrightarrow>
      (matchtype cfg = ''xo'' \<and>
       1 \<le> length (attributed L cfg g (pts c1) (l1p_c1 a)) \<and>
       1 \<le> length (attributed L cfg g (pts c2) (l1p_c2 a))) \<or>
      (matchtype cfg = ''otm'' \<and>
       51 \<le> length (attributed L cfg g (pts c1) (l1p_c1 a)) \<and>
       51 \<le> length (attributed L cfg g (pts c2) (l1p_c2 a)))) \<and>
   (identify_intersection L cfg lin1 lin2 = Some m \<and>
    ((matchtype cfg = ''xo'' \<and>
      (length (attributed L cfg m P1 i1) < 1 \<or> length (attributed L cfg m P2 i2) < 1)) \<or>
     (matchtype cfg = ''otm'' \<and>
      (length (attributed L cfg m P1 i1) < 51 \<or> length (attributed L cfg m P2 i2) < 51))) \<longrightarrow>
      snd (identify_pair L cfg P1 P2 (i1, Some lin1) (i2, Some lin2)) = Inr None \<and>
      identify_inner L cfg P1 P2 (i1, Some lin1) ((i2, Some lin2) # rows2) =
        (fst (identify_pair L cfg P1 P2 (i1, Some lin1) (i2, Some lin2)) @
           fst (identify_inner L cfg P1 P2 (i1, Some lin1) rows2),
         snd (identify_inner L cfg P1 P2 (i1, Some lin1) rows2)))"
proof (intro conjI impI)
  assume h: "snd (identify L cfg c1 c2) = Inr rows \<and> (a, g) \<in> set rows"
  let ?l1 = "points_on_line (pts c1) (l1p_c1 a)" and ?l2 = "points_on_line (pts c2) (l1p_c2 a)"
  from h identify_row [of L cfg c1 c2 rows a g] consider
    (xo) "matchtype cfg = ''xo''" "identify_XOs L cfg g ?l1 ?l2 = Inr (Some a)"
    | (otm) "matchtype cfg = ''otm''" "identify_OTMs L cfg g ?l1 ?l2 = Inr (Some a)"
    by blast
  then show "(matchtype cfg = ''xo'' \<and>
       1 \<le> length (attributed L cfg g (pts c1) (l1p_c1 a)) \<and>
       1 \<le> length (attributed L cfg g (pts c2) (l1p_c2 a))) \<or>
      (matchtype cfg = ''otm'' \<and>
       51 \<le> length (attributed L cfg g (pts c1) (l1p_c1 a)) \<and>
       51 \<le> length (attributed L cfg g (pts c2) (l1p_c2 a)))"
  proof cases
    case xo
    from identify_XOs_Some [OF xo(2)] xo(1) show ?thesis
      by (simp add: Suc_le_eq)
  next
    case otm
    from identify_OTMs_Some [OF otm(2)] otm(1) show ?thesis
      by simp
  qed
next
  assume h: "identify_intersection L cfg lin1 lin2 = Some m \<and>
    ((matchtype cfg = ''xo'' \<and>
      (length (attributed L cfg m P1 i1) < 1 \<or> length (attributed L cfg m P2 i2) < 1)) \<or>
     (matchtype cfg = ''otm'' \<and>
      (length (attributed L cfg m P1 i1) < 51 \<or> length (attributed L cfg m P2 i2) < 51)))"
  then have m: "identify_intersection L cfg lin1 lin2 = Some m" by simp
  from h consider
    (xo) "matchtype cfg = ''xo''"
         "length (attributed L cfg m P1 i1) < 1 \<or> length (attributed L cfg m P2 i2) < 1"
    | (otm) "matchtype cfg = ''otm''"
         "length (attributed L cfg m P1 i1) < 51 \<or> length (attributed L cfg m P2 i2) < 51"
    by blast
  then show "snd (identify_pair L cfg P1 P2 (i1, Some lin1) (i2, Some lin2)) = Inr None"
  proof cases
    case xo
    from identify_XOs_None [OF xo(2)] xo(1) show ?thesis
      by (simp add: identify_pair_lines [OF m])
  next
    case otm
    from identify_OTMs_None [OF otm(2)] otm(1) show ?thesis
      by (simp add: identify_pair_lines [OF m])
  qed
  then show "identify_inner L cfg P1 P2 (i1, Some lin1) ((i2, Some lin2) # rows2) =
        (fst (identify_pair L cfg P1 P2 (i1, Some lin1) (i2, Some lin2)) @
           fst (identify_inner L cfg P1 P2 (i1, Some lin1) rows2),
         snd (identify_inner L cfg P1 P2 (i1, Some lin1) rows2))"
    by (rule identify_inner_skip)
qed

text \<open>
  The record of tracks a and b rests on two attributed samples on each side. Under \<open>otm\<close>
  the same two tracks come close for three and two samples: no record, nothing raised;
  tracks e and f have 51 attributed samples each, and a record.
\<close>

theorem match_needs_enough_samples_witness:
  "snd (identify cells cfg_xo gdf_a gdf_b) = Inr [(attrs_ab, [102])] \<and>
   (attrs_ab, [102 :: int]) \<in> set [(attrs_ab, [102])] \<and>
   matchtype cfg_xo = ''xo'' \<and>
   1 \<le> length (attributed cells cfg_xo [102] (pts gdf_a) (l1p_c1 attrs_ab)) \<and>
   1 \<le> length (attributed cells cfg_xo [102] (pts gdf_b) (l1p_c2 attrs_ab)) \<and>
   identify_intersection cells cfg_otm [100, 101, 102] [102, 103, 104] = Some [101, 102] \<and>
   matchtype cfg_otm = ''otm'' \<and>
   length (attributed cells cfg_otm [101, 102] (pts gdf_a) ''a'') = 3 \<and>
   length (attributed cells cfg_otm [101, 102] (pts gdf_b) ''b'') = 2 \<and>
   identify_pair cells cfg_otm (pts gdf_a) (pts gdf_b) (''a'', Some [100, 101, 102])
       (''b'', Some [102, 103, 104]) = ([], Inr None) \<and>
   snd (identify cells cfg_otm gdf_e gdf_f) = Inr [(attrs_ef, line_e)] \<and>
   (attrs_ef, line_e) \<in> set [(attrs_ef, line_e)] \<and>
   51 \<le> length (attributed cells cfg_otm line_e (pts gdf_e) (l1p_c1 attrs_ef)) \<and>
   51 \<le> length (attributed cells cfg_otm line_e (pts gdf_f) (l1p_c2 attrs_ef))"
proof -
  have o: "snd (identify cells cfg_otm gdf_e gdf_f) = Inr [(attrs_ef, line_e)] \<and>
           (attrs_ef, line_e) \<in> set [(attrs_ef, line_e)]"
    by (simp add: identify_otm_example)
  have a: "snd (identify cells cfg_xo gdf_a gdf_b) = Inr [(attrs_ab, [102])] \<and>
           (attrs_ab, [102 :: int]) \<in> set [(attrs_ab, [102])]"
    by code_simp
  have n: "matchtype cfg_xo = ''xo''" "matchtype cfg_otm = ''otm''"
    by code_simp+
  have b: "identify_intersection cells cfg_otm [100, 101, 102] [102, 103, 104] = Some [101, 102]"
    by code_simp
  have c: "length (attributed cells cfg_otm [101, 102] (pts gdf_a) ''a'') = 3"
          "length (attributed cells cfg_otm [101, 102] (pts gdf_b) ''b'') = 2"
    by code_simp+
  have l: "fst (identify_pair cells cfg_otm (pts gdf_a) (pts gdf_b) (''a'', Some [100, 101, 102])
       (''b'', Some [102, 103, 104])) = []"
    by code_simp
  note t = match_needs_enough_samples [where L = cells and ?c1.0 = gdf_a
      and ?c2.0 = gdf_b and rows = "[(attrs_ab, [102])]" and a = attrs_ab and g = "[102]"
      and ?lin1.0 = "[100, 101, 102]" and ?lin2.0 = "[102, 103, 104]" and m = "[101, 102]"
      and ?P1.0 = "pts gdf_a" and ?P2.0 = "pts gdf_b" and ?i1.0 = "''a''" and ?i2.0 = "''b''"]
  from t [where cfg = cfg_xo] a n have d:
    "1 \<le> length (attributed cells cfg_xo [102] (pts gdf_a) (l1p_c1 attrs_ab)) \<and>
     1 \<le> length (attributed cells cfg_xo [102] (pts gdf_b) (l1p_c2 attrs_ab))"
    by simp
  from t [where cfg = cfg_otm] b c n have
    "snd (identify_pair cells cfg_otm (pts gdf_a) (pts gdf_b) (''a'', Some [100, 101, 102])
       (''b'', Some [102, 103, 104])) = Inr None"
    by simp
  with l have e: "identify_pair cells cfg_otm (pts gdf_a) (pts gdf_b)
       (''a'', Some [100, 101, 102]) (''b'', Some [102, 103, 104]) = ([], Inr None)"
    by (simp add: prod_eq_iff)
  from match_needs_enough_samples [where L = cells and cfg = cfg_otm and ?c1.0 = gdf_e
      and ?c2.0 = gdf_f and rows = "[(attrs_ef, line_e)]" and a = attrs_ef and g = line_e]
    o n
  have f: "51 \<le> length (attributed cells cfg_otm line_e (pts gdf_e) (l1p_c1 attrs_ef)) \<and>
           51 \<le> length (attributed cells cfg_otm line_e (pts gdf_f) (l1p_c2 attrs_ef))"
    by simp
  from a n b c d e o f show ?thesis by simp
qed

text \<open>
  Claim C4. The index bounds of a record are the file indices of the first and of the last
  entry of each track's attributed-sample list, and that list holds the positions of the
  track's samples within the buffered match in the order of the track's rows (strictly
  ascending positions): it is not sorted by distance or by file index.
\<close>

theorem index_bounds_follow_sample_order:
  assumes "snd (identify L cfg c1 c2) = Inr rows" and "(a, g) \<in> set rows"
  shows "attributed L cfg g (pts c1) (l1p_c1 a) \<noteq> [] \<and>
     attributed L cfg g (pts c2) (l1p_c2 a) \<noteq> [] \<and>
     c1_rng_0 a = fidx (points_on_line (pts c1) (l1p_c1 a) !
                    hd (attributed L cfg g (pts c1) (l1p_c1 a))) \<and>
     c1_rng_1 a = fidx (points_on_line (pts c1) (l1p_c1 a) !
                    last (attributed L cfg g (pts c1) (l1p_c1 a))) \<and>
     c2_rng_0 a = fidx (points_on_line (pts c2) (l1p_c2 a) !
                    hd (attributed L cfg g (pts c2) (l1p_c2 a))) \<and>
     c2_rng_1 a = fidx (points_on_line (pts c2) (l1p_c2 a) !
                    last (attributed L cfg g (pts c2) (l1p_c2 a))) \<and>
     sorted_wrt (<) (attributed L cfg g (pts c1) (l1p_c1 a)) \<and>
     sorted_wrt (<) (attributed L cfg g (pts c2) (l1p_c2 a)) \<and>
     set (attributed L cfg g (pts c1) (l1p_c1 a)) =
       {i. i < length (points_on_line (pts c1) (l1p_c1 a)) \<and>
           intersects L (geometry (points_on_line (pts c1) (l1p_c1 a) ! i))
             (buffer L g (buffersize cfg))} \<and>
     set (attributed L cfg g (pts c2) (l1p_c2 a)) =
       {i. i < length (points_on_line (pts c2) (l1p_c2 a)) \<and>
           intersects L (geometry (points_on_line (pts c2) (l1p_c2 a) ! i))
             (buffer L g (buffersize cfg))}"
proof -
  let ?l1 = "points_on_line (pts c1) (l1p_c1 a)" and ?l2 = "points_on_line (pts c2) (l1p_c2 a)"
  from identify_row [OF assms] have
    "identify_XOs L cfg g ?l1 ?l2 = Inr (Some a) \<or> identify_OTMs L cfg g ?l1 ?l2 = Inr (Some a)"
    by blast
  from synthesis_Some [OF this] have
    "identify_points_in_match L cfg g ?l1 \<noteq> []" "identify_points_in_match L cfg g ?l2 \<noteq> []"
    "c1_rng_0 a = fidx (?l1 ! hd (identify_points_in_match L cfg g ?l1))"
    "c1_rng_1 a = fidx (?l1 ! last (identify_points_in_match L cfg g ?l1))"
    "c2_rng_0 a = fidx (?l2 ! hd (identify_points_in_match L cfg g ?l2))"
    "c2_rng_1 a = fidx (?l2 ! last (identify_points_in_match L cfg g ?l2))"
    by auto
  then show ?thesis
    by (simp add: in_match_sorted in_match_set)
qed

text \<open>
  With file indices 9, 8, 7 along track a, the samples at positions 1 and 2 are attributed,
  and the record's bounds are 8 and then 7.
\<close>

theorem index_bounds_follow_sample_order_witness:
  "snd (identify cells cfg_xo gdf_r gdf_b) = Inr [(attrs_rb, [102])] \<and>
   (attrs_rb, [102 :: int]) \<in> set [(attrs_rb, [102])] \<and>
   attributed cells cfg_xo [102] (pts gdf_r) (l1p_c1 attrs_rb) = [1, 2] \<and>
   attributed cells cfg_xo [102] (pts gdf_b) (l1p_c2 attrs_rb) = [0, 1] \<and>
   c1_rng_0 attrs_rb = fidx (points_on_line (pts gdf_r) (l1p_c1 attrs_rb) ! 1) \<and>
   c1_rng_1 attrs_rb = fidx (points_on_line (pts gdf_r) (l1p_c1 attrs_rb) ! 2) \<and>
   c2_rng_0 attrs_rb = fidx (points_on_line (pts gdf_b) (l1p_c2 attrs_rb) ! 0) \<and>
   c2_rng_1 attrs_rb = fidx (points_on_line (pts gdf_b) (l1p_c2 attrs_rb) ! 1) \<and>
   map fidx (points_on_line (pts gdf_r) (l1p_c1 attrs_rb)) = [9, 8, 7] \<and>
   c1_rng_0 attrs_rb = 8 \<and> c1_rng_1 attrs_rb = 7"
proof -
  have a: "snd (identify cells cfg_xo gdf_r gdf_b) = Inr [(attrs_rb, [102])]"
          "(attrs_rb, [102 :: int]) \<in> set [(attrs_rb, [102])]"
    by code_simp+
  have i: "attributed cells cfg_xo [102] (pts gdf_r) (l1p_c1 attrs_rb) = [1, 2]"
          "attributed cells cfg_xo [102] (pts gdf_b) (l1p_c2 attrs_rb) = [0, 1]"
    by code_simp+
  have f: "map fidx (points_on_line (pts gdf_r) (l1p_c1 attrs_rb)) = [9, 8, 7]"
    by code_simp
  have v: "c1_rng_0 attrs_rb = 8" "c1_rng_1 attrs_rb = 7"
    by (simp_all add: attrs_rb_def)
  from index_bounds_follow_sample_order [OF a] have
    "c1_rng_0 attrs_rb = fidx (points_on_line (pts gdf_r) (l1p_c1 attrs_rb) ! 1) \<and>
     c1_rng_1 attrs_rb = fidx (points_on_line (pts gdf_r) (l1p_c1 attrs_rb) ! 2) \<and>
     c2_rng_0 attrs_rb = fidx (points_on_line (pts gdf_b) (l1p_c2 attrs_rb) ! 0) \<and>
     c2_rng_1 attrs_rb = fidx (points_on_line (pts gdf_b) (l1p_c2 attrs_rb) ! 1)"
    by (simp add: i)
  with a i f v show ?thesis by simp
qed


section \<open>Claims about pairs without a match\<close>

text \<open>
  Claim C6, as stated: a temporally admitted pair whose intersection is empty is excluded
  with no record, no warning and no error. The code has no test for an empty intersection:
  the empty geometry goes through the same dispatch on its class as any other. Tracks a
  and g are disjoint (shapely returns an empty geometry that is not a Point for two
  disjoint polylines); under \<open>xo\<close> the pair is admitted (mean times 10 s and 105 s), yields
  no record and no error, and the warning is logged.
\<close>

theorem empty_intersection_logs_warning:
  "identify_intersection cells cfg_xo [100, 101, 102] [110, 111] = Some [] \<and>
   is_empty cells [] \<and>
   identify_pair cells cfg_xo (pts gdf_a) (pts gdf_g) (''a'', Some [100, 101, 102])
       (''g'', Some [110, 111]) =
     ([(WARNING, ''Unsupported intersect type'')], Inr None) \<and>
   identify cells cfg_xo gdf_a gdf_g =
     ([(INFO, ''Processing''), (INFO, ''Identifying orbit intersections...''),
       (WARNING, ''Unsupported intersect type''),
       (INFO, ''Saving results to GeoDataFrame...'')], Inr [])"
  by code_simp

text \<open>
  Claim C6, amended: a pair whose intersection is empty yields no record and no error, and
  the inner loop goes on with the following pairs; the warning is logged for it unless the
  class of the empty geometry is the one the configured match type asks for (then the
  record synthesis finds no attributed sample and returns \<open>None\<close>). The two facts about
  empty geometries are shapely's: a buffer of an empty geometry is empty, and nothing
  intersects an empty geometry.
\<close>

theorem empty_intersection_yields_no_match:
  assumes "identify_intersection L cfg lin1 lin2 = Some m" and "is_empty L m"
      and "\<And>h r. is_empty L h \<Longrightarrow> is_empty L (buffer L h r)"
      and "\<And>p h. is_empty L h \<Longrightarrow> \<not> intersects L p h"
  shows "identify_pair L cfg P1 P2 (i1, Some lin1) (i2, Some lin2) =
           (if (geom_type L m = Point \<and> matchtype cfg = ''xo'') \<or>
               (geom_type L m = LineString \<and> matchtype cfg = ''otm'')
            then [] else [(WARNING, ''Unsupported intersect type'')], Inr None) \<and>
         identify_inner L cfg P1 P2 (i1, Some lin1) ((i2, Some lin2) # rows2) =
           (fst (identify_pair L cfg P1 P2 (i1, Some lin1) (i2, Some lin2)) @
              fst (identify_inner L cfg P1 P2 (i1, Some lin1) rows2),
            snd (identify_inner L cfg P1 P2 (i1, Some lin1) rows2))"
proof -
  have e: "\<And>ps. identify_points_in_match L cfg m ps = []"
    using assms(2-4) by (rule in_match_empty)
  have x: "identify_XOs L cfg m (points_on_line P1 i1) (points_on_line P2 i2) = Inr None"
    by (rule identify_XOs_None) (simp add: e)
  have o: "identify_OTMs L cfg m (points_on_line P1 i1) (points_on_line P2 i2) = Inr None"
    by (rule identify_OTMs_None) (simp add: e)
  have p: "identify_pair L cfg P1 P2 (i1, Some lin1) (i2, Some lin2) =
           (if (geom_type L m = Point \<and> matchtype cfg = ''xo'') \<or>
               (geom_type L m = LineString \<and> matchtype cfg = ''otm'')
            then [] else [(WARNING, ''Unsupported intersect type'')], Inr None)"
    by (simp add: identify_pair_lines [OF assms(1)] x o)
  then have "snd (identify_pair L cfg P1 P2 (i1, Some lin1) (i2, Some lin2)) = Inr None"
    by simp
  from p identify_inner_skip [OF this] show ?thesis
    by blast
qed

text \<open>
  Tracks a and g again: under \<open>xo\<close> the empty intersection is discarded with the warning;
  under \<open>otm\<close> it is an empty line string and is discarded without one.
\<close>

theorem empty_intersection_yields_no_match_witness:
  "identify_intersection cells cfg_xo [100, 101, 102] [110, 111] = Some [] \<and>
   identify_intersection cells cfg_otm [100, 101, 102] [110, 111] = Some [] \<and>
   is_empty cells [] \<and> geom_type cells [] = LineString \<and>
   identify_pair cells cfg_xo (pts gdf_a) (pts gdf_g) (''a'', Some [100, 101, 102])
       (''g'', Some [110, 111]) =
     ([(WARNING, ''Unsupported intersect type'')], Inr None) \<and>
   identify_pair cells cfg_otm (pts gdf_a) (pts gdf_g) (''a'', Some [100, 101, 102])
       (''g'', Some [110, 111]) = ([], Inr None)"
proof -
  have i: "identify_intersection cells cfg_xo [100, 101, 102] [110, 111] = Some []"
          "identify_intersection cells cfg_otm [100, 101, 102] [110, 111] = Some []"
    by code_simp+
  have e: "is_empty cells []"
    by (simp add: cells_def)
  have b: "\<And>h r. is_empty cells h \<Longrightarrow> is_empty cells (buffer cells h r)"
    by (simp add: cells_def cells_buffer_def)
  have n: "\<And>p h. is_empty cells h \<Longrightarrow> \<not> intersects cells p h"
    by (simp add: cells_def list_ex_iff)
  have t: "geom_type cells [] = LineString"
    by (simp add: cells_def cells_type_def)
  have m: "matchtype cfg_xo = ''xo''" "matchtype cfg_otm = ''otm''"
    by (simp_all add: cfg_xo_def cfg_otm_def)
  from empty_intersection_yields_no_match [OF i(1) e b n, where ?P1.0 = "pts gdf_a"
      and ?i1.0 = "''a''" and ?P2.0 = "pts gdf_g" and ?i2.0 = "''g''"]
  have x: "identify_pair cells cfg_xo (pts gdf_a) (pts gdf_g) (''a'', Some [100, 101, 102])
       (''g'', Some [110, 111]) = ([(WARNING, ''Unsupported intersect type'')], Inr None)"
    by (simp add: t m)
  from empty_intersection_yields_no_match [OF i(2) e b n, where ?P1.0 = "pts gdf_a"
      and ?i1.0 = "''a''" and ?P2.0 = "pts gdf_g" and ?i2.0 = "''g''"]
  have o: "identify_pair cells cfg_otm (pts gdf_a) (pts gdf_g) (''a'', Some [100, 101, 102])
       (''g'', Some [110, 111]) = ([], Inr None)"
    by (simp add: t m)
  from i e t x o show ?thesis by simp
qed


section \<open>Claims about the track builder\<close>

text \<open>
  Claim C9. A track with fewer than 2 eligible samples gets no polyline: its row of the
  line frame, when it has one, holds \<open>None\<close> (and a row with a polyline belongs to a track
  of at least 2 samples). A pair with such a row is skipped at once, before any
  intersection, and every record of the result frame is between two tracks of at least 2
  samples each.
\<close>

theorem short_tracks_are_dropped:
  assumes "snd (compile_shp L cfg files1) = Inr c1"
      and "snd (compile_shp L cfg files2) = Inr c2"
  shows "((i, p) \<in> set (lin c1) \<longrightarrow>
            (p = None \<longleftrightarrow> length (points_on_line (pts c1) i) < 2)) \<and>
         ((j, q) \<in> set (lin c2) \<longrightarrow>
            (q = None \<longleftrightarrow> length (points_on_line (pts c2) j) < 2)) \<and>
         identify_pair L cfg (pts c1) (pts c2) (i, None) row2 = ([], Inr None) \<and>
         identify_pair L cfg (pts c1) (pts c2) row1 (j, None) = ([], Inr None) \<and>
         (snd (identify L cfg c1 c2) = Inr rows \<and> (a, g) \<in> set rows \<longrightarrow>
            2 \<le> length (points_on_line (pts c1) (l1p_c1 a)) \<and>
            2 \<le> length (points_on_line (pts c2) (l1p_c2 a)))"
proof -
  from compile_shp_Inr [OF assms(1)] have l1: "lin c1 = compile_lines L (pts c1)" by blast
  from compile_shp_Inr [OF assms(2)] have l2: "lin c2 = compile_lines L (pts c2)" by blast
  have a: "(i, p) \<in> set (lin c1) \<longrightarrow> (p = None \<longleftrightarrow> length (points_on_line (pts c1) i) < 2)"
    unfolding l1 using compile_lines_mem [of i p L "pts c1"] by blast
  have b: "(j, q) \<in> set (lin c2) \<longrightarrow> (q = None \<longleftrightarrow> length (points_on_line (pts c2) j) < 2)"
    unfolding l2 using compile_lines_mem [of j q L "pts c2"] by blast
  have c: "snd (identify L cfg c1 c2) = Inr rows \<and> (a, g) \<in> set rows \<longrightarrow>
            2 \<le> length (points_on_line (pts c1) (l1p_c1 a)) \<and>
            2 \<le> length (points_on_line (pts c2) (l1p_c2 a))"
  proof
    assume "snd (identify L cfg c1 c2) = Inr rows \<and> (a, g) \<in> set rows"
    with identify_row [of L cfg c1 c2 rows a g] obtain lin1 lin2 where
      "(l1p_c1 a, Some lin1) \<in> set (compile_lines L (pts c1))"
      "(l1p_c2 a, Some lin2) \<in> set (compile_lines L (pts c2))"
      unfolding l1 l2 by blast
    from compile_lines_mem [OF this(1)] compile_lines_mem [OF this(2)]
    show "2 \<le> length (points_on_line (pts c1) (l1p_c1 a)) \<and>
          2 \<le> length (points_on_line (pts c2) (l1p_c2 a))"
      by simp
  qed
  from a b c show ?thesis
    by (simp add: identify_pair_no_line)
qed

text \<open>
  File h has one eligible measurement: its track has a row without a polyline, and the
  run over the files h and a against b still finds the one crossing of a and b.
\<close>

theorem short_tracks_are_dropped_witness:
  "snd (compile_shp cells cfg_xo [file_h, file_a]) = Inr gdf_ha \<and>
   snd (compile_shp cells cfg_xo [file_b]) = Inr gdf_b \<and>
   (''h'', None) \<in> set (lin gdf_ha) \<and>
   length (points_on_line (pts gdf_ha) ''h'') = 1 \<and>
   (''b'', Some [102, 103, 104]) \<in> set (lin gdf_b) \<and>
   length (points_on_line (pts gdf_b) ''b'') = 3 \<and>
   identify_pair cells cfg_xo (pts gdf_ha) (pts gdf_b) (''h'', None) (''b'', Some [102, 103, 104])
     = ([], Inr None) \<and>
   snd (identify cells cfg_xo gdf_ha gdf_b) = Inr [(attrs_ab, [102])] \<and>
   (attrs_ab, [102 :: int]) \<in> set [(attrs_ab, [102])] \<and>
   2 \<le> length (points_on_line (pts gdf_ha) (l1p_c1 attrs_ab)) \<and>
   2 \<le> length (points_on_line (pts gdf_b) (l1p_c2 attrs_ab))"
proof -
  have c: "snd (compile_shp cells cfg_xo [file_h, file_a]) = Inr gdf_ha"
          "snd (compile_shp cells cfg_xo [file_b]) = Inr gdf_b"
    by code_simp+
  have m: "(''h'', None) \<in> set (lin gdf_ha)" "(''b'', Some [102, 103, 104]) \<in> set (lin gdf_b)"
    by code_simp+
  have n: "length (points_on_line (pts gdf_ha) ''h'') = 1"
          "length (points_on_line (pts gdf_b) ''b'') = 3"
    by code_simp+
  have r: "snd (identify cells cfg_xo gdf_ha gdf_b) = Inr [(attrs_ab, [102])]"
          "(attrs_ab, [102 :: int]) \<in> set [(attrs_ab, [102])]"
    by code_simp+
  note t = short_tracks_are_dropped [OF c, where i = "''h''" and p = None and j = "''b''"
      and q = "Some [102, 103, 104]" and ?row2.0 = "(''b'', Some [102, 103, 104])"
      and rows = "[(attrs_ab, [102])]" and a = attrs_ab and g = "[102]"]
  from t have
    "identify_pair cells cfg_xo (pts gdf_ha) (pts gdf_b) (''h'', None)
       (''b'', Some [102, 103, 104]) = ([], Inr None)"
    by blast
  moreover from t r have
    "2 \<le> length (points_on_line (pts gdf_ha) (l1p_c1 attrs_ab)) \<and>
     2 \<le> length (points_on_line (pts gdf_b) (l1p_c2 attrs_ab))"
    by blast
  ultimately show ?thesis
    using c m n r by simp
qed

text \<open>
  Claim C8. The file index of a sample must be the position of its measurement in the
  full-length arrays of the file, not a position within a filtered subset. The code takes
  \<open>idx2pick\<close> from \<open>np.where\<close> over \<open>sft[aoi_idx]\<close>, so it holds positions within the AOI
  subset, and uses them as positions of the full arrays and as the file indices. In file m
  the AOI subset is the positions 1 and 2 and the one eligible measurement is at position 2
  of the file, which is position 1 of the subset: the one sample built has the file index
  1, and holds the measurement at position 1 of the file, which is not ocean.
\<close>

theorem file_index_is_subset_position:
  "eligible_positions cfg_xo file_m = [2] \<and>
   snd (aoi_select cfg_xo (latitude file_m) (longitude file_m)) = Inr [1, 2] \<and>
   snd (compile_file cfg_xo file_m) =
     Inr [\<lparr>raw_id = ''m'', raw_time = 10, raw_lat = 80, raw_lon = 101, raw_fidx = 1\<rparr>] \<and>
   flag file_m ! 1 = 0 \<and> flag file_m ! 2 = 1 \<and>
   snd (compile_shp cells cfg_xo [file_m]) =
     Inr \<lparr>pts = [pt ''m'' 10 101 1], lin = [(''m'', None)]\<rparr>"
  by code_simp


section \<open>Claims about failures\<close>

text \<open>
  Claim C10. XO record synthesis is not total. \<open>_identify_XOs\<close> takes \<open>geometry2\<close> from
  \<open>line1_points\<close> and indexes it with the attributed positions of track B: whenever both
  sides have at least one attributed sample and some attributed position of track B is at
  or beyond the number of samples of track A, it raises IndexError and returns neither a
  tuple nor \<open>None\<close>.
\<close>

theorem identify_XOs_IndexError:
  assumes "identify_points_in_match L cfg m l1 \<noteq> []"
      and "identify_points_in_match L cfg m l2 \<noteq> []"
      and "\<exists>j \<in> set (identify_points_in_match L cfg m l2). length l1 \<le> j"
  shows "identify_XOs L cfg m l1 l2 = Inl IndexError"
proof -
  have "\<not> list_all (\<lambda>i. i < length (map geometry l1)) (identify_points_in_match L cfg m l2)"
    using assms(3) by (auto simp: list_all_iff not_less)
  then have "iloc_list (map geometry l1) (identify_points_in_match L cfg m l2) = Inl IndexError"
    by (simp add: iloc_list_def)
  then show ?thesis
    using assms(1,2) by (simp add: identify_XOs_def Let_def iloc_list_in_match)
qed

text \<open>
  Tracks c and d cross in cell 103: both samples of c are attributed, and so are the samples
  of d at positions 2 and 3, beyond the two samples of c. The run over the two files ends
  with the IndexError.
\<close>

theorem identify_XOs_IndexError_witness:
  "identify_points_in_match cells cfg_xo [103] (pts gdf_c) = [0, 1] \<and>
   identify_points_in_match cells cfg_xo [103] (pts gdf_d) = [2, 3] \<and>
   length (pts gdf_c) = 2 \<and>
   identify_XOs cells cfg_xo [103] (pts gdf_c) (pts gdf_d) = Inl IndexError \<and>
   snd (run cells cfg_xo [file_c] [file_d]) = Inl IndexError"
proof -
  have h1: "identify_points_in_match cells cfg_xo [103] (pts gdf_c) = [0, 1]"
    by code_simp
  have h2: "identify_points_in_match cells cfg_xo [103] (pts gdf_d) = [2, 3]"
    by code_simp
  have h3: "length (pts gdf_c) = 2"
    by code_simp
  have r: "snd (run cells cfg_xo [file_c] [file_d]) = Inl IndexError"
    by code_simp
  have "identify_XOs cells cfg_xo [103] (pts gdf_c) (pts gdf_d) = Inl IndexError"
    using identify_XOs_IndexError [of cells cfg_xo "[103]" "pts gdf_c" "pts gdf_d"] h1 h2 h3
    by simp
  with h1 h2 h3 r show ?thesis by simp
qed

text \<open>
  Claim C5. A full run that produces zero Match records must end with a non-zero exit
  status. The code logs the critical record and calls \<open>sys.exit()\<close> without an argument:
  the outcome is \<open>SystemExit None\<close>, whose exit status is 0. Tracks a and g are disjoint,
  so the run over their files finds no match and ends with status 0.
\<close>

theorem empty_result_exit_status:
  "export_shp ([] :: (attrs \<times> int list) list) =
     ([(CRITICAL, ''No matches found to export!'')], Inl (SystemExit None)) \<and>
   snd (identify cells cfg_xo gdf_a gdf_g) = Inr [] \<and>
   snd (run cells cfg_xo [file_a] [file_g]) = Inl (SystemExit None) \<and>
   exit_status (run cells cfg_xo [file_a] [file_g]) = 0"
  by code_simp

text \<open>
  Claim C7. An unrecognized AOI must be logged as critical before the run stops. With the
  AOI \<open>baltic\<close> the run stops at the first file with an AttributeError, and the only record
  in the log is the \<open>Processing:\<close> record of that file: no critical record is written.
\<close>

theorem unknown_aoi_not_logged:
  "aoi cfg_baltic \<noteq> ''arc'' \<and> aoi cfg_baltic \<noteq> ''ant'' \<and>
   compile_file cfg_baltic file_a = ([(INFO, ''Processing:'')], Inl AttributeError) \<and>
   run cells cfg_baltic [file_a] [file_b] = ([(INFO, ''Processing:'')], Inl AttributeError)"
  by code_simp

end
